theory Spec2Isabelle
  imports Complex_Main "HOL-Library.Word"
begin

section \<open>Earthquake dashboard: \<^verbatim>\<open>streamlit_app/eq_dashboard.py\<close>\<close>

text \<open>
  The script has two functions. \<^verbatim>\<open>retrieve_data_from_usgs_api\<close> checks its three
  arguments, builds a request URL, fetches it, parses the body as CSV and renders the
  result with Streamlit and Plotly. \<^verbatim>\<open>get_table_download_link\<close> turns a data frame
  into an HTML link that carries the CSV text inline, base64 encoded.

  Python values are dynamically typed, so the arguments are modelled by a datatype of
  values. Exceptions are values of a sum type (\<open>Inl\<close> is the exception). The calls that
  leave the process or draw on the page are recorded, in order, in a list of events.
  What the third-party libraries compute (the HTTP exchange, the CSV parser, the CSV
  writer) is taken as a parameter, the record \<open>lib\<close>; what the script relies on from them is
  written out and said so at each place. Binary floating point is modelled by rounding on
  the reals.
\<close>

subsection \<open>Python values\<close>

text \<open>
  A Python \<^verbatim>\<open>str\<close> is represented by the bytes of its UTF-8 encoding, one \<open>char\<close> per byte.
  A binary64 value is represented by the real number it denotes, or by one of the three
  special values. The two zeros are not told apart.
\<close>

record date =
  year :: nat
  month :: nat
  day :: nat

datatype float64 = Fin real | PInf | NInf | NaN

text \<open>
  \<open>PyDateTime d t\<close> is a \<^verbatim>\<open>datetime.datetime\<close>: its date and the text of its time of day
  as \<^verbatim>\<open>str\<close> prints it. \<^verbatim>\<open>datetime\<close> is a subclass of \<^verbatim>\<open>date\<close>, and \<^verbatim>\<open>bool\<close> of \<^verbatim>\<open>int\<close>.
\<close>

datatype pyval =
    PyNone
  | PyBool bool
  | PyInt int
  | PyFloat float64
  | PyStr string
  | PyDate date
  | PyDateTime date string

datatype error =
    AssertionError "string option"
  | AttributeError string
  | KeyError string
  | ValueError string
  | TypeError string
  | OtherError string

fun isinstance_date :: "pyval \<Rightarrow> bool" where
  "isinstance_date (PyDate d) = True"
| "isinstance_date (PyDateTime d t) = True"
| "isinstance_date v = False"

fun isinstance_float :: "pyval \<Rightarrow> bool" where
  "isinstance_float (PyFloat x) = True"
| "isinstance_float v = False"

fun isinstance_int :: "pyval \<Rightarrow> bool" where
  "isinstance_int (PyInt i) = True"
| "isinstance_int (PyBool b) = True"
| "isinstance_int v = False"

text \<open>Truth value testing, as \<^verbatim>\<open>if min_mag:\<close> does it.\<close>

fun truthy :: "pyval \<Rightarrow> bool" where
  "truthy PyNone = False"
| "truthy (PyBool b) = b"
| "truthy (PyInt i) = (i \<noteq> 0)"
| "truthy (PyFloat x) = (x \<noteq> Fin 0)"
| "truthy (PyStr s) = (s \<noteq> [])"
| "truthy (PyDate d) = True"
| "truthy (PyDateTime d t) = True"

subsection \<open>Binary64 arithmetic\<close>

text \<open>
  IEEE 754 binary64, round to nearest, ties to even: 53 bits of significand, exponents from
  \<open>-1022\<close> to \<open>1023\<close>, subnormal numbers below, infinity from \<open>2 ^ 1024\<close> on.
\<close>

definition pow2 :: "int \<Rightarrow> real" where
  "pow2 k = (if 0 \<le> k then 2 ^ nat k else 1 / 2 ^ nat (- k))"

definition round_half_even :: "real \<Rightarrow> int" where
  "round_half_even x =
     (let f = \<lfloor>x\<rfloor>; d = x - of_int f
      in if d < 1 / 2 then f else if 1 / 2 < d then f + 1 else if even f then f else f + 1)"

text \<open>
  \<open>ilog2 x\<close> is the largest \<open>k \<le> 1023\<close> with \<open>2 ^ k \<le> \<bar>x\<bar>\<close>, searched downwards as far as the
  smallest subnormal number.
\<close>

fun ilog2_from :: "nat \<Rightarrow> int \<Rightarrow> real \<Rightarrow> int" where
  "ilog2_from 0 k x = k"
| "ilog2_from (Suc n) k x = (if pow2 k \<le> x then k else ilog2_from n (k - 1) x)"

definition ilog2 :: "real \<Rightarrow> int" where
  "ilog2 x = ilog2_from 2098 1023 \<bar>x\<bar>"

definition round_binary64 :: "real \<Rightarrow> float64" where
  "round_binary64 x =
     (if x = 0 then Fin 0
      else (let u = pow2 (max (ilog2 x - 52) (- 1074));
                y = of_int (round_half_even (x / u)) * u
            in if pow2 1024 \<le> \<bar>y\<bar> then (if 0 < y then PInf else NInf) else Fin y))"

fun fadd :: "float64 \<Rightarrow> float64 \<Rightarrow> float64" where
  "fadd (Fin a) (Fin b) = round_binary64 (a + b)"
| "fadd NaN y = NaN"
| "fadd x NaN = NaN"
| "fadd PInf NInf = NaN"
| "fadd NInf PInf = NaN"
| "fadd PInf y = PInf"
| "fadd x PInf = PInf"
| "fadd NInf y = NInf"
| "fadd x NInf = NInf"

fun fmul :: "float64 \<Rightarrow> float64 \<Rightarrow> float64" where
  "fmul (Fin a) (Fin b) = round_binary64 (a * b)"
| "fmul NaN y = NaN"
| "fmul x NaN = NaN"
| "fmul (Fin a) y = (if a = 0 then NaN else if (0 < a) = (y = PInf) then PInf else NInf)"
| "fmul x (Fin b) = (if b = 0 then NaN else if (0 < b) = (x = PInf) then PInf else NInf)"
| "fmul x y = (if x = y then PInf else NInf)"

text \<open>Division by a positive finite number, which is all the script divides by.\<close>

fun fdiv :: "float64 \<Rightarrow> real \<Rightarrow> float64" where
  "fdiv (Fin a) d = round_binary64 (a / d)"
| "fdiv x d = x"

text \<open>\<^verbatim>\<open>rint\<close>: the nearest whole number, ties to even.\<close>

fun frint :: "float64 \<Rightarrow> float64" where
  "frint (Fin a) = Fin (of_int (round_half_even a))"
| "frint x = x"

subsection \<open>Data frames\<close>

text \<open>
  A data frame is a list of named columns and the length of its index. A cell is a number
  (possibly NaN, which is how pandas stores a missing number) or a text.
\<close>

datatype cell = CNum float64 | CStr string

record dataframe =
  nrows :: nat
  cols :: "(string \<times> cell list) list"

record response =
  status_code :: int
  resp_text :: string

text \<open>
  The figure that \<^verbatim>\<open>px.scatter_geo\<close> returns is kept as the arguments it was built from.
\<close>

record figure =
  fig_data :: dataframe
  fig_lat :: string
  fig_lon :: string
  fig_size :: "cell list"
  fig_custom_data :: "string list"
  fig_hovertemplate :: "string option"

subsection \<open>The libraries\<close>

text \<open>
  \<^item> \<open>requests_get\<close>: \<^verbatim>\<open>requests.get\<close>, which may raise (no connection);
  \<^item> \<open>read_csv\<close>: \<^verbatim>\<open>pd.read_csv\<close> on the text of the body, which may raise;
  \<^item> \<open>repr_float\<close>: the shortest decimal text of a finite binary64 value;
  \<^item> \<open>long_sum\<close>: the binary64 sum of eight or more values, in which the order of the
    additions is the library's (numpy adds block-wise and pairwise);
  \<^item> \<open>object_mean\<close>: \<^verbatim>\<open>Series.mean\<close> on a column that holds a text;
  \<^item> \<open>series_pow\<close>: \<^verbatim>\<open>Series.__pow__\<close>, which may raise on a column that holds a text;
  \<^item> \<open>figure_check\<close>: what else Plotly may reject in the arguments of a figure;
  \<^item> \<open>cell_str\<close>: the text the CSV writer prints for a cell;
  \<^item> \<open>csv_writer\<close>: the CSV dialect (delimiter, quoting, line ends) applied to rows of
    fields.
\<close>

record lib =
  requests_get :: "string \<Rightarrow> error + response"
  read_csv :: "string \<Rightarrow> error + dataframe"
  repr_float :: "real \<Rightarrow> string"
  long_sum :: "float64 list \<Rightarrow> float64"
  object_mean :: "cell list \<Rightarrow> error + float64"
  series_pow :: "cell list \<Rightarrow> int \<Rightarrow> error + cell list"
  figure_check :: "figure \<Rightarrow> error option"
  cell_str :: "cell \<Rightarrow> string"
  csv_writer :: "string list list \<Rightarrow> string"

subsection \<open>Formatting values in an f-string\<close>

definition digit_char :: "nat \<Rightarrow> char" where
  "digit_char n = char_of (48 + n)"

function str_nat :: "nat \<Rightarrow> string" where
  "str_nat n = (if n < 10 then [digit_char n] else str_nat (n div 10) @ [digit_char (n mod 10)])"
  by pat_completeness auto
termination
  by (relation "measure id") auto

declare str_nat.simps [simp del]

text \<open>
  The digits of an \<^verbatim>\<open>int\<close>, however many. CPython prints at most 4300 of them: see
  \<open>format_raises\<close> below, which the run consults before the text is used.
\<close>

definition str_int :: "int \<Rightarrow> string" where
  "str_int i = (if i < 0 then ''-'' @ str_nat (nat (- i)) else str_nat (nat i))"

definition zfill :: "nat \<Rightarrow> string \<Rightarrow> string" where
  "zfill k s = replicate (k - length s) (CHR ''0'') @ s"

text \<open>\<^verbatim>\<open>date.isoformat\<close>, which is \<^verbatim>\<open>"%04d-%02d-%02d"\<close>.\<close>

definition isoformat :: "date \<Rightarrow> string" where
  "isoformat d =
     zfill 4 (str_nat (year d)) @ ''-'' @ zfill 2 (str_nat (month d)) @ ''-''
     @ zfill 2 (str_nat (day d))"

text \<open>
  \<^verbatim>\<open>repr\<close> of a float. A non-zero whole number below \<open>10 ^ 16\<close> in size prints as its digits
  followed by \<^verbatim>\<open>.0\<close>; every other finite value is left to \<open>repr_float\<close>.
\<close>

definition float_repr :: "lib \<Rightarrow> float64 \<Rightarrow> string" where
  "float_repr L x =
     (case x of
        NaN \<Rightarrow> ''nan''
      | PInf \<Rightarrow> ''inf''
      | NInf \<Rightarrow> ''-inf''
      | Fin r \<Rightarrow>
          (if r \<noteq> 0 \<and> of_int \<lfloor>r\<rfloor> = r \<and> \<bar>r\<bar> < 10 ^ 16
           then str_int \<lfloor>r\<rfloor> @ ''.0''
           else repr_float L r))"

fun py_format :: "lib \<Rightarrow> pyval \<Rightarrow> string" where
  "py_format L PyNone = ''None''"
| "py_format L (PyBool b) = (if b then ''True'' else ''False'')"
| "py_format L (PyInt i) = str_int i"
| "py_format L (PyFloat x) = float_repr L x"
| "py_format L (PyStr s) = s"
| "py_format L (PyDate d) = isoformat d"
| "py_format L (PyDateTime d t) = isoformat d @ '' '' @ t"

text \<open>
  CPython does not print an \<^verbatim>\<open>int\<close> of more than 4300 digits: the conversion raises
  ValueError. So formatting a value may raise, and \<open>py_format\<close> is the text only when it
  does not.
\<close>

definition int_max_str_digits :: nat where
  "int_max_str_digits = 4300"

fun format_raises :: "pyval \<Rightarrow> error option" where
  "format_raises (PyInt i) =
     (if int_max_str_digits < length (str_nat (nat \<bar>i\<bar>))
      then Some (ValueError ''Exceeds the limit (4300 digits) for integer string conversion'')
      else None)"
| "format_raises v = None"

subsection \<open>Bytes and base64\<close>

type_synonym byte = "8 word"

text \<open>\<^verbatim>\<open>str.encode()\<close> and \<^verbatim>\<open>bytes.decode()\<close>, under the UTF-8 representation of \<^verbatim>\<open>str\<close>.\<close>

definition py_encode :: "string \<Rightarrow> byte list" where
  "py_encode s = map (\<lambda>c. of_nat (of_char c)) s"

definition py_decode :: "byte list \<Rightarrow> string" where
  "py_decode bs = map (\<lambda>b. char_of (unat b)) bs"

definition b64_alphabet :: string where
  "b64_alphabet = ''ABCDEFGHIJKLMNOPQRSTUVWXYZabcdefghijklmnopqrstuvwxyz0123456789+/''"

definition b64_char :: "nat \<Rightarrow> byte" where
  "b64_char n = of_nat (of_char (b64_alphabet ! n))"

definition b64_pad :: byte where
  "b64_pad = of_nat (of_char (CHR ''=''))"

text \<open>
  \<^verbatim>\<open>base64.b64encode\<close>: three bytes give four characters of six bits each; one or two
  bytes left over give two or three characters and padding.
\<close>

fun b64encode :: "byte list \<Rightarrow> byte list" where
  "b64encode [] = []"
| "b64encode [a] =
     [b64_char (unat a div 4), b64_char (unat a mod 4 * 16), b64_pad, b64_pad]"
| "b64encode [a, b] =
     [b64_char (unat a div 4), b64_char (unat a mod 4 * 16 + unat b div 16),
      b64_char (unat b mod 16 * 4), b64_pad]"
| "b64encode (a # b # c # rest) =
     [b64_char (unat a div 4), b64_char (unat a mod 4 * 16 + unat b div 16),
      b64_char (unat b mod 16 * 4 + unat c div 64), b64_char (unat c mod 64)]
     @ b64encode rest"

text \<open>
  The decoder is what the reader of the link runs; the script has none. It is the
  standard one: four characters give three bytes, padding ends the text.
\<close>

fun index_of :: "'a \<Rightarrow> 'a list \<Rightarrow> nat option" where
  "index_of x [] = None"
| "index_of x (y # ys) =
     (if x = y then Some 0 else map_option Suc (index_of x ys))"

definition b64_index :: "byte \<Rightarrow> nat option" where
  "b64_index b = index_of (char_of (unat b)) b64_alphabet"

definition join1 :: "nat \<Rightarrow> nat \<Rightarrow> byte" where
  "join1 s1 s2 = of_nat (s1 * 4 + s2 div 16)"

definition join2 :: "nat \<Rightarrow> nat \<Rightarrow> byte" where
  "join2 s2 s3 = of_nat (s2 mod 16 * 16 + s3 div 4)"

definition join3 :: "nat \<Rightarrow> nat \<Rightarrow> byte" where
  "join3 s3 s4 = of_nat (s3 mod 4 * 64 + s4)"

fun b64decode :: "byte list \<Rightarrow> byte list option" where
  "b64decode [] = Some []"
| "b64decode (c1 # c2 # c3 # c4 # rest) =
     (case (b64_index c1, b64_index c2) of
        (Some s1, Some s2) \<Rightarrow>
          (if rest = [] \<and> c3 = b64_pad \<and> c4 = b64_pad
           then Some [join1 s1 s2]
           else (case b64_index c3 of
                   Some s3 \<Rightarrow>
                     (if rest = [] \<and> c4 = b64_pad
                      then Some [join1 s1 s2, join2 s2 s3]
                      else (case (b64_index c4, b64decode rest) of
                              (Some s4, Some bs) \<Rightarrow>
                                Some (join1 s1 s2 # join2 s2 s3 # join3 s3 s4 # bs)
                            | _ \<Rightarrow> None))
                 | None \<Rightarrow> None))
      | _ \<Rightarrow> None)"
| "b64decode _ = None"

subsection \<open>What the script uses of pandas\<close>

text \<open>\<^verbatim>\<open>df.name\<close>: attribute access to a column; AttributeError when there is none.\<close>

definition df_getattr :: "dataframe \<Rightarrow> string \<Rightarrow> error + cell list" where
  "df_getattr df name =
     (case map_of (cols df) name of
        None \<Rightarrow> Inl (AttributeError name)
      | Some c \<Rightarrow> Inr c)"

text \<open>\<^verbatim>\<open>df['name']\<close>: KeyError when there is no such column.\<close>

definition df_getitem :: "dataframe \<Rightarrow> string \<Rightarrow> error + cell list" where
  "df_getitem df name =
     (case map_of (cols df) name of
        None \<Rightarrow> Inl (KeyError name)
      | Some c \<Rightarrow> Inr c)"

text \<open>
  \<^verbatim>\<open>df[names]\<close> with a list of names: the named columns in the order asked for; KeyError when one is
  missing.
\<close>

fun select_cols ::
  "(string \<times> cell list) list \<Rightarrow> string list \<Rightarrow> error + (string \<times> cell list) list" where
  "select_cols cs [] = Inr []"
| "select_cols cs (n # ns) =
     (case map_of cs n of
        None \<Rightarrow> Inl (KeyError n)
      | Some c \<Rightarrow>
          (case select_cols cs ns of
             Inl e \<Rightarrow> Inl e
           | Inr r \<Rightarrow> Inr ((n, c) # r)))"

definition df_select :: "dataframe \<Rightarrow> string list \<Rightarrow> error + dataframe" where
  "df_select df names =
     (case select_cols (cols df) names of
        Inl e \<Rightarrow> Inl e
      | Inr cs \<Rightarrow> Inr \<lparr>nrows = nrows df, cols = cs\<rparr>)"

fun cell_num :: "cell \<Rightarrow> float64 option" where
  "cell_num (CNum x) = Some x"
| "cell_num (CStr s) = None"

fun is_num :: "cell \<Rightarrow> bool" where
  "is_num (CNum x) = True"
| "is_num (CStr s) = False"

text \<open>
  The sum of a column, \<^verbatim>\<open>ndarray.sum\<close>. Fewer than eight values are added one after the
  other, from zero, in the order of the rows; each addition rounds.
\<close>

definition series_sum :: "lib \<Rightarrow> float64 list \<Rightarrow> float64" where
  "series_sum L vs = (if length vs < 8 then foldl fadd (Fin 0) vs else long_sum L vs)"

definition nan_to_zero :: "float64 \<Rightarrow> float64" where
  "nan_to_zero x = (if x = NaN then Fin 0 else x)"

text \<open>
  \<^verbatim>\<open>Series.mean()\<close>. On a column of numbers pandas puts zero in place of the NaN entries,
  sums, and divides the sum by the count of the entries that are not NaN; when there is
  none the result is NaN (its own check of the count, not a division). A column read from
  a body with no data row has no entry and falls in this case. A column that holds a text
  is left to \<open>object_mean\<close>.
\<close>

definition series_mean :: "lib \<Rightarrow> cell list \<Rightarrow> error + float64" where
  "series_mean L xs =
     (if list_all is_num xs
      then (let nums = List.map_filter cell_num xs;
                count = length (filter (\<lambda>x. x \<noteq> NaN) nums)
            in if count = 0 then Inr NaN
               else Inr (fdiv (series_sum L (map nan_to_zero nums)) (real count)))
      else object_mean L xs)"

text \<open>
  \<^verbatim>\<open>np.round(x, d)\<close> for \<open>d \<ge> 0\<close>: numpy multiplies by \<open>10 ^ d\<close>, rounds to a whole number
  and divides by \<open>10 ^ d\<close>, each step in binary64.
\<close>

definition np_round :: "float64 \<Rightarrow> nat \<Rightarrow> float64" where
  "np_round x d = fdiv (frint (fmul x (Fin (10 ^ d)))) (10 ^ d)"

text \<open>
  \<^verbatim>\<open>df.to_csv(index=...)\<close>: the header row names every column, preceded by an empty label
  for the index when the index is written; each data row has one field per column,
  preceded by the row number when the index is written.
\<close>

definition csv_header :: "dataframe \<Rightarrow> bool \<Rightarrow> string list" where
  "csv_header df index = (if index then [Nil] else []) @ map fst (cols df)"

definition cell_at :: "lib \<Rightarrow> cell list \<Rightarrow> nat \<Rightarrow> string" where
  "cell_at L vs i = (if i < length vs then cell_str L (vs ! i) else [])"

definition csv_rows :: "lib \<Rightarrow> dataframe \<Rightarrow> bool \<Rightarrow> string list list" where
  "csv_rows L df index =
     map (\<lambda>i. (if index then [str_nat i] else []) @ map (\<lambda>c. cell_at L (snd c) i) (cols df))
       [0..<nrows df]"

definition to_csv :: "lib \<Rightarrow> dataframe \<Rightarrow> bool \<Rightarrow> string" where
  "to_csv L df index = csv_writer L (csv_header df index # csv_rows L df index)"

subsection \<open>What the script uses of Plotly\<close>

text \<open>
  \<^verbatim>\<open>px.scatter_geo\<close>: every argument that names a column must name a column of the data
  frame, else ValueError.
\<close>

definition px_scatter_geo ::
  "lib \<Rightarrow> dataframe \<Rightarrow> string \<Rightarrow> string \<Rightarrow> cell list \<Rightarrow> string list \<Rightarrow> error + figure" where
  "px_scatter_geo L data_frame lat lon size_arg custom_data =
     (case filter (\<lambda>n. n \<notin> set (map fst (cols data_frame))) (lat # lon # custom_data) of
        n # ns \<Rightarrow> Inl (ValueError n)
      | [] \<Rightarrow>
          (let fig = \<lparr>fig_data = data_frame, fig_lat = lat, fig_lon = lon, fig_size = size_arg,
                      fig_custom_data = custom_data, fig_hovertemplate = None\<rparr>
           in case figure_check L fig of
                Some e \<Rightarrow> Inl e
              | None \<Rightarrow> Inr fig))"

definition update_traces :: "figure \<Rightarrow> string \<Rightarrow> figure" where
  "update_traces fig hovertemplate = fig\<lparr>fig_hovertemplate := Some hovertemplate\<rparr>"

subsection \<open>Events\<close>

datatype event =
    HttpGet string
  | StColumns nat
  | StMetric nat string pyval
  | StWrite string
  | StPlotlyChart figure bool
  | StDataframe dataframe
  | StMarkdown string bool

text \<open>The events that put the data on the page: the table and the download link.\<close>

fun shows_data :: "event \<Rightarrow> bool" where
  "shows_data (StDataframe df) = True"
| "shows_data (StMarkdown s unsafe_allow_html) = True"
| "shows_data ev = False"

subsection \<open>\<^verbatim>\<open>get_table_download_link\<close>\<close>

definition href_prefix :: string where
  "href_prefix = ''<a href='' @ [CHR 0x22] @ ''data:file/csv;base64,''"

definition href_suffix :: string where
  "href_suffix = [CHR 0x22] @ ''>Download CSV file</a>''"

definition get_table_download_link :: "lib \<Rightarrow> dataframe \<Rightarrow> string" where
  "get_table_download_link L df =
     (let csv = to_csv L df False;
          b64 = py_decode (b64encode (py_encode csv));
          href = href_prefix @ b64 @ href_suffix
      in href)"

text \<open>Reading the link: the payload is what follows the prefix, up to the closing quote.\<close>

definition payload_of :: "string \<Rightarrow> string" where
  "payload_of href = takeWhile (\<lambda>c. c \<noteq> CHR 0x22) (drop (length href_prefix) href)"

subsection \<open>\<^verbatim>\<open>retrieve_data_from_usgs_api\<close>\<close>

text \<open>
  Lines 46 to 50: the request string. The two dates are printed in both branches, the
  magnitude in the first only.
\<close>

definition request_url :: "lib \<Rightarrow> pyval \<Rightarrow> pyval \<Rightarrow> pyval \<Rightarrow> string" where
  "request_url L start_date end_date min_mag =
     (if truthy min_mag
      then ''https://earthquake.usgs.gov/fdsnws/event/1/query?format=csv&starttime=''
           @ py_format L start_date @ ''&endtime='' @ py_format L end_date
           @ ''&minmagnitude='' @ py_format L min_mag
      else ''https://earthquake.usgs.gov/fdsnws/event/1/query?format=csv&starttime=''
           @ py_format L start_date @ ''&endtime='' @ py_format L end_date)"

text \<open>Line 65: \<^verbatim>\<open>np.round(eq_df.mag.mean(), 2)\<close>.\<close>

definition average_mag :: "lib \<Rightarrow> dataframe \<Rightarrow> error + float64" where
  "average_mag L eq_df =
     (case df_getattr eq_df ''mag'' of
        Inl e \<Rightarrow> Inl e
      | Inr mag \<Rightarrow>
          (case series_mean L mag of
             Inl e \<Rightarrow> Inl e
           | Inr m \<Rightarrow> Inr (np_round m 2)))"

text \<open>Line 76: \<^verbatim>\<open>eq_df['mag']**2\<close>.\<close>

definition mag_squared :: "lib \<Rightarrow> dataframe \<Rightarrow> error + cell list" where
  "mag_squared L eq_df =
     (case df_getitem eq_df ''mag'' of
        Inl e \<Rightarrow> Inl e
      | Inr mag \<Rightarrow> series_pow L mag 2)"

definition shown_columns :: "string list" where
  "shown_columns = [''place'', ''latitude'', ''longitude'', ''mag'', ''depth'']"

definition hover_text :: string where
  "hover_text = ''Place: %{customdata[0]}<br>Magnitude: %{customdata[1]}''"

text \<open>
  Lines 62 to 95: what is drawn from the parsed data frame. The result is the value the
  function returns (it has no \<^verbatim>\<open>return\<close> statement, so \<^verbatim>\<open>None\<close>) or the exception, with the
  events up to that point.
\<close>

definition display :: "lib \<Rightarrow> dataframe \<Rightarrow> (error + pyval) \<times> event list" where
  "display L eq_df =
     (let ev1 = [StColumns 2,
                 StMetric 1 ''Number of Earthquakes'' (PyInt (int (nrows eq_df)))]
      in case average_mag L eq_df of
           Inl e \<Rightarrow> (Inl e, ev1)
         | Inr avg \<Rightarrow>
             (let ev2 = ev1 @ [StMetric 2 ''Average Mag of Earthquakes'' (PyFloat avg),
                               StWrite [], StWrite []]
              in case mag_squared L eq_df of
                   Inl e \<Rightarrow> (Inl e, ev2)
                 | Inr size_arg \<Rightarrow>
                     (case px_scatter_geo L eq_df ''latitude'' ''longitude'' size_arg
                             [''place'', ''mag''] of
                        Inl e \<Rightarrow> (Inl e, ev2)
                      | Inr fig \<Rightarrow>
                          (let ev3 = ev2 @ [StPlotlyChart (update_traces fig hover_text) True]
                           in case df_select eq_df shown_columns of
                                Inl e \<Rightarrow> (Inl e, ev3)
                              | Inr shown \<Rightarrow>
                                  (Inr PyNone,
                                   ev3 @ [StDataframe shown,
                                          StMarkdown (get_table_download_link L eq_df) True])))))"

definition status_message :: string where
  "status_message =
     ''There was a problem with the request. Try again or check the status of the USGS API.''"

definition min_mag_message :: string where
  "min_mag_message = ''min_mag parameter should be a float or int number.''"

text \<open>
  Lines 40 to 60. Line 48, in the branch of a truthy \<^verbatim>\<open>min_mag\<close>, is the one place where
  \<^verbatim>\<open>min_mag\<close> is printed; when it cannot be printed the exception leaves the function
  before the request.
\<close>

definition retrieve_data_from_usgs_api ::
  "lib \<Rightarrow> pyval \<Rightarrow> pyval \<Rightarrow> pyval \<Rightarrow> (error + pyval) \<times> event list" where
  "retrieve_data_from_usgs_api L start_date end_date min_mag =
     (if \<not> isinstance_date start_date then (Inl (AssertionError None), [])
      else if \<not> isinstance_date end_date then (Inl (AssertionError None), [])
      else if truthy min_mag \<and> \<not> (isinstance_float min_mag \<or> isinstance_int min_mag)
      then (Inl (AssertionError (Some min_mag_message)), [])
      else
        (case (if truthy min_mag then format_raises min_mag else None) of
           Some e \<Rightarrow> (Inl e, [])
         | None \<Rightarrow>
             (let req_txt = request_url L start_date end_date min_mag
              in case requests_get L req_txt of
                   Inl e \<Rightarrow> (Inl e, [HttpGet req_txt])
                 | Inr response \<Rightarrow>
                     (if status_code response \<noteq> 200
                      then (Inl (AssertionError (Some status_message)), [HttpGet req_txt])
                      else (case read_csv L (resp_text response) of
                              Inl e \<Rightarrow> (Inl e, [HttpGet req_txt])
                            | Inr eq_df \<Rightarrow>
                                (case display L eq_df of
                                   (r, evs) \<Rightarrow> (r, HttpGet req_txt # evs)))))))"

subsection \<open>Sample inputs\<close>

text \<open>
  Concrete dates, response bodies, data frames, responses and a library, used to run the
  model. Each sample body is the CSV text of the sample frame beside it, and the sample
  library does on the samples what the real libraries do: it parses each sample body to
  its frame, squares the magnitudes in binary64, lets Plotly refuse a frame with no row,
  and writes CSV with commas and line feeds. The fields of the samples need no quoting,
  and their numbers are whole, so that each prints as its digits followed by \<^verbatim>\<open>.0\<close>.
\<close>

definition jan1 :: date where
  "jan1 = \<lparr>year = 2024, month = 1, day = 1\<rparr>"

definition jan2 :: date where
  "jan2 = \<lparr>year = 2024, month = 1, day = 2\<rparr>"

definition sample_body :: string where
  "sample_body =
     ''time,latitude,longitude,depth,mag,place'' @ [CHR 0x0A]
     @ ''2024-01-01T03:04:05.000Z,35.0,139.0,10.0,6.0,Honshu'' @ [CHR 0x0A]"

definition sample_df :: dataframe where
  "sample_df =
     \<lparr>nrows = 1,
      cols = [(''time'', [CStr ''2024-01-01T03:04:05.000Z'']),
              (''latitude'', [CNum (Fin 35)]),
              (''longitude'', [CNum (Fin 139)]),
              (''depth'', [CNum (Fin 10)]),
              (''mag'', [CNum (Fin 6)]),
              (''place'', [CStr ''Honshu''])]\<rparr>"

definition five_df :: dataframe where
  "five_df =
     \<lparr>nrows = 1,
      cols = [(''place'', [CStr ''Honshu'']),
              (''latitude'', [CNum (Fin 35)]),
              (''longitude'', [CNum (Fin 139)]),
              (''mag'', [CNum (Fin 6)]),
              (''depth'', [CNum (Fin 10)])]\<rparr>"

definition no_mag_body :: string where
  "no_mag_body =
     ''place,latitude,longitude,depth'' @ [CHR 0x0A] @ ''Honshu,35.0,139.0,10.0'' @ [CHR 0x0A]"

definition no_mag_df :: dataframe where
  "no_mag_df =
     \<lparr>nrows = 1,
      cols = [(''place'', [CStr ''Honshu'']),
              (''latitude'', [CNum (Fin 35)]),
              (''longitude'', [CNum (Fin 139)]),
              (''depth'', [CNum (Fin 10)])]\<rparr>"

definition no_depth_body :: string where
  "no_depth_body =
     ''place,latitude,longitude,mag'' @ [CHR 0x0A] @ ''Honshu,35.0,139.0,6.0'' @ [CHR 0x0A]"

definition no_depth_df :: dataframe where
  "no_depth_df =
     \<lparr>nrows = 1,
      cols = [(''place'', [CStr ''Honshu'']),
              (''latitude'', [CNum (Fin 35)]),
              (''longitude'', [CNum (Fin 139)]),
              (''mag'', [CNum (Fin 6)])]\<rparr>"

definition header_body :: string where
  "header_body = ''place,latitude,longitude,mag,depth'' @ [CHR 0x0A]"

definition empty_df :: dataframe where
  "empty_df =
     \<lparr>nrows = 0,
      cols = [(''place'', []), (''latitude'', []), (''longitude'', []), (''mag'', []),
              (''depth'', [])]\<rparr>"

text \<open>
  Three records whose magnitudes are \<open>10 ^ 16\<close>, \<open>1\<close> and \<open>- (10 ^ 16)\<close>, and the same three
  records with the last two exchanged. The three numbers are binary64 values.
  \<open>reorder_rows p df\<close> is the frame whose rows are the rows of \<open>df\<close> at the places \<open>p\<close>.
\<close>

definition reorder_rows :: "nat list \<Rightarrow> dataframe \<Rightarrow> dataframe" where
  "reorder_rows p df =
     \<lparr>nrows = length p, cols = map (\<lambda>c. (fst c, map (\<lambda>i. snd c ! i) p)) (cols df)\<rparr>"

definition drift_df :: dataframe where
  "drift_df =
     \<lparr>nrows = 3,
      cols = [(''place'', [CStr ''A'', CStr ''B'', CStr ''C'']),
              (''latitude'', [CNum (Fin 35), CNum (Fin 36), CNum (Fin 37)]),
              (''longitude'', [CNum (Fin 139), CNum (Fin 140), CNum (Fin 141)]),
              (''mag'', [CNum (Fin 10000000000000000), CNum (Fin 1),
                         CNum (Fin (- 10000000000000000))]),
              (''depth'', [CNum (Fin 10), CNum (Fin 20), CNum (Fin 30)])]\<rparr>"

definition drift_perm_df :: dataframe where
  "drift_perm_df =
     \<lparr>nrows = 3,
      cols = [(''place'', [CStr ''A'', CStr ''C'', CStr ''B'']),
              (''latitude'', [CNum (Fin 35), CNum (Fin 37), CNum (Fin 36)]),
              (''longitude'', [CNum (Fin 139), CNum (Fin 141), CNum (Fin 140)]),
              (''mag'', [CNum (Fin 10000000000000000), CNum (Fin (- 10000000000000000)),
                         CNum (Fin 1)]),
              (''depth'', [CNum (Fin 10), CNum (Fin 30), CNum (Fin 20)])]\<rparr>"

definition ok_response :: response where
  "ok_response = \<lparr>status_code = 200, resp_text = sample_body\<rparr>"

definition no_mag_response :: response where
  "no_mag_response = \<lparr>status_code = 200, resp_text = no_mag_body\<rparr>"

definition no_depth_response :: response where
  "no_depth_response = \<lparr>status_code = 200, resp_text = no_depth_body\<rparr>"

definition not_found_response :: response where
  "not_found_response = \<lparr>status_code = 404, resp_text = ''Not Found''\<rparr>"

definition sample_read_csv :: "string \<Rightarrow> error + dataframe" where
  "sample_read_csv body =
     (if body = sample_body then Inr sample_df
      else if body = no_mag_body then Inr no_mag_df
      else if body = no_depth_body then Inr no_depth_df
      else if body = header_body then Inr empty_df
      else Inl (OtherError ''not a sample body''))"

definition sample_series_pow :: "cell list \<Rightarrow> int \<Rightarrow> error + cell list" where
  "sample_series_pow xs n =
     (if list_all is_num xs \<and> n = 2
      then Inr (map (\<lambda>c. case c of CNum x \<Rightarrow> CNum (fmul x x) | CStr s \<Rightarrow> c) xs)
      else Inl (TypeError ''unsupported operand type(s) for ** or pow()''))"

definition sample_figure_check :: "figure \<Rightarrow> error option" where
  "sample_figure_check fig =
     (if nrows (fig_data fig) = 0 then Some (ValueError ''no row to draw'') else None)"

definition sample_cell_str :: "cell \<Rightarrow> string" where
  "sample_cell_str c =
     (case c of
        CStr s \<Rightarrow> s
      | CNum NaN \<Rightarrow> []
      | CNum PInf \<Rightarrow> ''inf''
      | CNum NInf \<Rightarrow> ''-inf''
      | CNum (Fin r) \<Rightarrow> str_int \<lfloor>r\<rfloor> @ ''.0'')"

fun join_fields :: "string list \<Rightarrow> string" where
  "join_fields [] = []"
| "join_fields [f] = f"
| "join_fields (f # g # fs) = f @ '','' @ join_fields (g # fs)"

definition sample_csv_writer :: "string list list \<Rightarrow> string" where
  "sample_csv_writer rows = concat (map (\<lambda>r. join_fields r @ [CHR 0x0A]) rows)"

text \<open>
  \<open>repr_float\<close>, \<open>long_sum\<close> and \<open>object_mean\<close> are not consulted on the samples: no sample
  number is printed by \<open>repr_float\<close>, no sample has eight rows, no sample has a text among
  its magnitudes.
\<close>

definition sample_lib :: lib where
  "sample_lib =
     \<lparr>requests_get = (\<lambda>url. Inr ok_response),
      read_csv = sample_read_csv,
      repr_float = (\<lambda>r. ''0.0''),
      long_sum = foldl fadd (Fin 0),
      object_mean = (\<lambda>xs. Inl (TypeError ''Could not convert to numeric'')),
      series_pow = sample_series_pow,
      figure_check = sample_figure_check,
      cell_str = sample_cell_str,
      csv_writer = sample_csv_writer\<rparr>"

section \<open>Properties\<close>

subsection \<open>Bytes and base64\<close>

lemma index_of_nth:
  "distinct xs \<Longrightarrow> n < length xs \<Longrightarrow> index_of (xs ! n) xs = Some n"
proof (induction xs arbitrary: n)
  case Nil
  then show ?case by simp
next
  case (Cons y ys)
  show ?case
  proof (cases n)
    case 0
    then show ?thesis by simp
  next
    case (Suc k)
    with Cons.prems have "ys ! k \<in> set ys" "y \<notin> set ys" "distinct ys" "k < length ys"
      by auto
    with Cons.IH [of k] Suc show ?thesis by auto
  qed
qed

lemma b64_alphabet_length: "length b64_alphabet = 64"
  by (simp add: b64_alphabet_def)

lemma b64_alphabet_distinct: "distinct b64_alphabet"
  by (simp add: b64_alphabet_def)

lemma byte_char_roundtrip: "char_of (unat (of_nat (of_char c) :: byte)) = c"
proof -
  have "(of_char c :: nat) < 256" by simp
  then have "unat (of_nat (of_char c) :: byte) = of_char c"
    by (simp add: unat_of_nat)
  then show ?thesis by simp
qed

lemma unat_byte_less: "unat (a :: byte) < 256"
  using unsigned_less [of a, where ?'a = nat] by simp

lemma char_byte_roundtrip: "of_nat (of_char (char_of (unat b))) = (b :: byte)"
proof -
  have "of_char (char_of (unat b)) = unat b mod 256" by simp
  also have "\<dots> = unat b" using unat_byte_less [of b] by simp
  finally show ?thesis by simp
qed

lemma unat_byte_mod: "unat (a :: byte) mod 256 = unat a"
  using unat_byte_less [of a] by simp

lemma py_encode_decode: "py_encode (py_decode bs) = bs"
  by (induction bs) (simp_all add: py_encode_def py_decode_def unat_byte_mod)

lemma py_decode_encode: "py_decode (py_encode s) = s"
  by (induction s) (simp_all add: py_encode_def py_decode_def byte_char_roundtrip)

lemma b64_index_char: "n < 64 \<Longrightarrow> b64_index (b64_char n) = Some n"
  unfolding b64_index_def b64_char_def byte_char_roundtrip
  by (rule index_of_nth) (simp_all add: b64_alphabet_distinct b64_alphabet_length)

lemma b64_char_in_alphabet:
  "n < 64 \<Longrightarrow> char_of (unat (b64_char n)) \<in> set b64_alphabet"
  unfolding b64_char_def byte_char_roundtrip
  by (simp add: b64_alphabet_length)

lemma b64_pad_char: "char_of (unat b64_pad) = CHR ''=''"
  unfolding b64_pad_def byte_char_roundtrip ..

lemma b64_char_not_pad: "n < 64 \<Longrightarrow> b64_char n \<noteq> b64_pad"
proof
  assume n: "n < 64" and eq: "b64_char n = b64_pad"
  from eq have "char_of (unat (b64_char n)) = char_of (unat b64_pad)" by simp
  then have "char_of (unat (b64_char n)) = CHR ''=''"
    by (simp only: b64_pad_char)
  with b64_char_in_alphabet [OF n] show False
    by (simp add: b64_alphabet_def)
qed

lemma quote_not_b64: "CHR 0x22 \<notin> set b64_alphabet" "CHR 0x22 \<noteq> CHR ''=''"
  by (simp_all add: b64_alphabet_def)

lemma b64_char_not_quote: "n < 64 \<Longrightarrow> char_of (unat (b64_char n)) \<noteq> CHR 0x22"
  using b64_char_in_alphabet [of n] quote_not_b64 by metis

lemma sextet_bounds:
  fixes u v w :: nat
  assumes "u < 256" "v < 256" "w < 256"
  shows "u div 4 < 64" "u mod 4 * 16 < 64" "u mod 4 * 16 + v div 16 < 64"
    "v mod 16 * 4 < 64" "v mod 16 * 4 + w div 64 < 64" "w mod 64 < 64"
proof -
  have u4: "u mod 4 < 4" and v16: "v mod 16 < 16" by simp_all
  from assms show "u div 4 < 64" by simp
  from u4 show "u mod 4 * 16 < 64" by linarith
  from assms have "v div 16 < 16" by simp
  with u4 show "u mod 4 * 16 + v div 16 < 64" by linarith
  from v16 show "v mod 16 * 4 < 64" by linarith
  from assms have "w div 64 < 4" by simp
  with v16 show "v mod 16 * 4 + w div 64 < 64" by linarith
  show "w mod 64 < 64" by simp
qed

lemma sextet_join:
  fixes u v w :: nat
  assumes "v < 256" "w < 256"
  shows "u div 4 * 4 + (u mod 4 * 16) div 16 = u"
    "u div 4 * 4 + (u mod 4 * 16 + v div 16) div 16 = u"
    "(u mod 4 * 16 + v div 16) mod 16 * 16 + (v mod 16 * 4) div 4 = v"
    "(u mod 4 * 16 + v div 16) mod 16 * 16 + (v mod 16 * 4 + w div 64) div 4 = v"
    "(v mod 16 * 4 + w div 64) mod 4 * 64 + w mod 64 = w"
proof -
  from assms have v: "v div 16 < 16" and w: "w div 64 < 4" by simp_all
  show "u div 4 * 4 + (u mod 4 * 16) div 16 = u" by simp
  from v show "u div 4 * 4 + (u mod 4 * 16 + v div 16) div 16 = u" by simp
  from v show "(u mod 4 * 16 + v div 16) mod 16 * 16 + (v mod 16 * 4) div 4 = v" by simp
  from v w show "(u mod 4 * 16 + v div 16) mod 16 * 16 + (v mod 16 * 4 + w div 64) div 4 = v"
    by simp
  from w show "(v mod 16 * 4 + w div 64) mod 4 * 64 + w mod 64 = w" by simp
qed

lemma join_split:
  fixes a b c :: byte
  shows "join1 (unat a div 4) (unat a mod 4 * 16) = a"
    "join1 (unat a div 4) (unat a mod 4 * 16 + unat b div 16) = a"
    "join2 (unat a mod 4 * 16 + unat b div 16) (unat b mod 16 * 4) = b"
    "join2 (unat a mod 4 * 16 + unat b div 16) (unat b mod 16 * 4 + unat c div 64) = b"
    "join3 (unat b mod 16 * 4 + unat c div 64) (unat c mod 64) = c"
  unfolding join1_def join2_def join3_def
    sextet_join [OF unat_byte_less [of b] unat_byte_less [of c]]
  by simp_all

lemma b64decode_group3:
  fixes a b c :: byte
  shows "b64decode (b64encode (a # b # c # rest)) =
    map_option (\<lambda>bs. a # b # c # bs) (b64decode (b64encode rest))"
proof -
  note bd = sextet_bounds [OF unat_byte_less [of a] unat_byte_less [of b] unat_byte_less [of c]]
  have np: "b64_char (unat c mod 64) \<noteq> b64_pad"
    by (rule b64_char_not_pad) (rule bd)
  show ?thesis
    by (simp add: b64_index_char bd join_split np split: option.split)
qed

lemma b64decode_group1:
  fixes a :: byte
  shows "b64decode (b64encode [a]) = Some [a]"
proof -
  note bd = sextet_bounds [OF unat_byte_less [of a] unat_byte_less [of a] unat_byte_less [of a]]
  show ?thesis
    by (simp add: b64_index_char bd join_split)
qed

lemma b64decode_group2:
  fixes a b :: byte
  shows "b64decode (b64encode [a, b]) = Some [a, b]"
proof -
  note bd = sextet_bounds [OF unat_byte_less [of a] unat_byte_less [of b] unat_byte_less [of b]]
  have np: "b64_char (unat b mod 16 * 4) \<noteq> b64_pad"
    by (rule b64_char_not_pad) (rule bd)
  show ?thesis
    by (simp add: b64_index_char bd join_split np)
qed

lemma b64_roundtrip: "b64decode (b64encode bs) = Some bs"
proof (induction bs rule: b64encode.induct)
  case 1
  show ?case by simp
next
  case (2 a)
  show ?case by (rule b64decode_group1)
next
  case (3 a b)
  show ?case by (rule b64decode_group2)
next
  case (4 a b c rest)
  then show ?case by (simp only: b64decode_group3 option.map)
qed

lemma b64_pad_not_quote: "char_of (unat b64_pad) \<noteq> CHR 0x22"
  by (simp only: b64_pad_char) simp

lemma b64encode_no_quote:
  "list_all (\<lambda>c. c \<noteq> CHR 0x22) (py_decode (b64encode bs))"
proof (induction bs rule: b64encode.induct)
  case 1
  show ?case by (simp add: py_decode_def)
next
  case (2 a)
  note bd = sextet_bounds [OF unat_byte_less [of a] unat_byte_less [of a] unat_byte_less [of a]]
  show ?case
    by (simp add: py_decode_def b64_char_not_quote bd b64_pad_not_quote)
next
  case (3 a b)
  note bd = sextet_bounds [OF unat_byte_less [of a] unat_byte_less [of b] unat_byte_less [of b]]
  show ?case
    by (simp add: py_decode_def b64_char_not_quote bd b64_pad_not_quote)
next
  case (4 a b c rest)
  note bd = sextet_bounds [OF unat_byte_less [of a] unat_byte_less [of b] unat_byte_less [of c]]
  from 4 show ?case
    by (simp add: py_decode_def b64_char_not_quote bd)
qed

lemma takeWhile_until:
  "list_all P xs \<Longrightarrow> \<not> P y \<Longrightarrow> takeWhile P (xs @ y # ys) = xs"
  by (induction xs) simp_all

lemma payload_of_link:
  "payload_of (get_table_download_link L df) =
     py_decode (b64encode (py_encode (to_csv L df False)))"
  unfolding payload_of_def get_table_download_link_def Let_def href_suffix_def
  by (simp add: takeWhile_until [OF b64encode_no_quote])

text \<open>
  Claim C4. For every data frame, the link that \<^verbatim>\<open>get_table_download_link\<close> returns carries
  a payload which, decoded from base64, is byte for byte the UTF-8 encoding of the text
  that \<^verbatim>\<open>df.to_csv(index=False)\<close> produced. This holds whatever the CSV writer prints.
\<close>

theorem download_link_roundtrip:
  "b64decode (py_encode (payload_of (get_table_download_link L df))) =
     Some (py_encode (to_csv L df False))"
  by (simp only: payload_of_link py_encode_decode b64_roundtrip)

subsection \<open>Running the model on numerals\<close>

lemma digit_chars:
  "digit_char 0 = CHR ''0''" "digit_char 1 = CHR ''1''" "digit_char 2 = CHR ''2''"
  "digit_char 3 = CHR ''3''" "digit_char 4 = CHR ''4''" "digit_char 5 = CHR ''5''"
  "digit_char 6 = CHR ''6''" "digit_char 7 = CHR ''7''" "digit_char 8 = CHR ''8''"
  "digit_char 9 = CHR ''9''" "digit_char (Suc 0) = CHR ''1''"
  by code_simp+

lemma isoformat_jan1: "isoformat jan1 = ''2024-01-01''"
  by (simp add: isoformat_def jan1_def zfill_def str_nat.simps digit_chars)

lemma isoformat_jan2: "isoformat jan2 = ''2024-01-02''"
  by (simp add: isoformat_def jan2_def zfill_def str_nat.simps digit_chars)

lemma float_repr_5: "float_repr L (Fin 5) = ''5.0''"
  by (simp add: float_repr_def str_int_def str_nat.simps digit_chars)

lemma request_url_example:
  "request_url L (PyDate jan1) (PyDate jan2) (PyFloat (Fin 5)) =
     ''https://earthquake.usgs.gov/fdsnws/event/1/query?format=csv&starttime=2024-01-01&endtime=2024-01-02&minmagnitude=5.0''"
  by (simp add: request_url_def isoformat_jan1 isoformat_jan2 float_repr_5)

subsection \<open>Binary64 arithmetic\<close>

lemma pow2_eq_powr: "pow2 k = 2 powr (of_int k)"
  by (simp add: pow2_def powr_real_of_int field_simps)

lemma pow2_mono: "j \<le> k \<Longrightarrow> pow2 j \<le> pow2 k"
  by (simp add: pow2_eq_powr)

lemma pow2_pos: "0 < pow2 k"
  by (simp add: pow2_eq_powr)

lemma ilog2_from_eq:
  "pow2 k \<le> x \<Longrightarrow> x < pow2 (k + 1) \<Longrightarrow> k \<le> j \<Longrightarrow> nat (j - k) < n \<Longrightarrow> ilog2_from n j x = k"
proof (induction n arbitrary: j)
  case 0
  then show ?case by simp
next
  case (Suc n)
  show ?case
  proof (cases "j = k")
    case True
    with Suc.prems show ?thesis by simp
  next
    case False
    with Suc.prems have jk: "k + 1 \<le> j" by simp
    from pow2_mono [OF jk] Suc.prems(2) have "\<not> pow2 j \<le> x" by simp
    moreover from jk Suc.prems have "ilog2_from n (j - 1) x = k"
      by (intro Suc.IH) auto
    ultimately show ?thesis by simp
  qed
qed

lemma ilog2_eq:
  assumes "pow2 k \<le> \<bar>x\<bar>" "\<bar>x\<bar> < pow2 (k + 1)" "- 1074 \<le> k" "k \<le> 1023"
  shows "ilog2 x = k"
  unfolding ilog2_def using assms by (intro ilog2_from_eq) auto

text \<open>
  Rounding a number of the normal range whose binary exponent is known: the quotient by
  the unit in the last place is rounded to a whole number.
\<close>

lemma round_binary64_at:
  assumes "pow2 k \<le> \<bar>x\<bar>" "\<bar>x\<bar> < pow2 (k + 1)" "- 1022 \<le> k" "k \<le> 1023"
    and "of_int (round_half_even (x / pow2 (k - 52))) * pow2 (k - 52) = y"
    and "\<bar>y\<bar> < pow2 1024"
  shows "round_binary64 x = Fin y"
proof -
  from assms have k: "ilog2 x = k" by (intro ilog2_eq) auto
  from assms(1) pow2_pos [of k] have "x \<noteq> 0" by auto
  moreover from assms(3) have "max (k - 52) (- 1074) = k - 52" by simp
  ultimately show ?thesis using assms(5,6)
    by (simp add: round_binary64_def k Let_def)
qed

lemma round_binary64_0: "round_binary64 0 = Fin 0"
  by (simp add: round_binary64_def)

lemma round_binary64_1: "round_binary64 1 = Fin 1"
  by (rule round_binary64_at [where k = 0]) (simp_all add: pow2_def round_half_even_def)

lemma round_binary64_6: "round_binary64 6 = Fin 6"
  by (rule round_binary64_at [where k = 2]) (simp_all add: pow2_def round_half_even_def)

lemma round_binary64_36: "round_binary64 36 = Fin 36"
  by (rule round_binary64_at [where k = 5]) (simp_all add: pow2_def round_half_even_def)

lemma round_binary64_600: "round_binary64 600 = Fin 600"
  by (rule round_binary64_at [where k = 9]) (simp_all add: pow2_def round_half_even_def)

text \<open>
  Above \<open>2 ^ 53\<close> the binary64 numbers are the even whole numbers: \<open>10 ^ 16\<close> is one of them,
  \<open>10 ^ 16 + 1\<close> lies half way between two and is rounded to the one with the even
  significand, which is \<open>10 ^ 16\<close>.
\<close>

lemma round_binary64_1e16: "round_binary64 10000000000000000 = Fin 10000000000000000"
  by (rule round_binary64_at [where k = 53]) (simp_all add: pow2_def round_half_even_def)

lemma round_binary64_1e16_plus_1: "round_binary64 10000000000000001 = Fin 10000000000000000"
  by (rule round_binary64_at [where k = 53]) (simp_all add: pow2_def round_half_even_def)

lemma round_binary64_third:
  "round_binary64 (1 / 3) = Fin (6004799503160661 / 18014398509481984)"
  by (rule round_binary64_at [where k = "- 2"]) (simp_all add: pow2_def round_half_even_def)

lemma np_round_0: "np_round (Fin 0) 2 = Fin 0"
  by (simp add: np_round_def round_binary64_0 round_half_even_def)

lemma np_round_6: "np_round (Fin 6) 2 = Fin 6"
  by (simp add: np_round_def round_binary64_600 round_binary64_6 round_half_even_def)

text \<open>\<^verbatim>\<open>np.round\<close> of the binary64 value of a third: \<open>0.33\<close>, as binary64 has it.\<close>

lemma np_round_third:
  "np_round (Fin (6004799503160661 / 18014398509481984)) 2 =
     Fin (5944751508129055 / 18014398509481984)"
proof -
  have a: "fmul (Fin (6004799503160661 / 18014398509481984)) (Fin (10 ^ 2)) =
      Fin (4691249611844266 / 140737488355328)"
    unfolding fmul.simps
    by (rule round_binary64_at [where k = 5]) (simp_all add: pow2_def round_half_even_def)
  have b: "frint (Fin (4691249611844266 / 140737488355328)) = Fin 33"
    by (simp add: round_half_even_def)
  have c: "fdiv (Fin 33) (10 ^ 2) = Fin (5944751508129055 / 18014398509481984)"
    unfolding fdiv.simps
    by (rule round_binary64_at [where k = "- 2"]) (simp_all add: pow2_def round_half_even_def)
  show ?thesis
    unfolding np_round_def a b c ..
qed

subsection \<open>The request\<close>

text \<open>
  Claim C9. A \<^verbatim>\<open>min_mag\<close> of \<^verbatim>\<open>0\<close> or \<^verbatim>\<open>0.0\<close> is treated exactly as \<^verbatim>\<open>None\<close>: the whole
  run is the same, the value is not type-checked, and the request string has no
  \<^verbatim>\<open>minmagnitude\<close> parameter. The test is \<^verbatim>\<open>if min_mag:\<close>, truth value testing, not a
  comparison with \<^verbatim>\<open>None\<close>.
\<close>

theorem zero_min_mag_is_absent:
  "retrieve_data_from_usgs_api L start_date end_date (PyInt 0) =
     retrieve_data_from_usgs_api L start_date end_date PyNone
   \<and> retrieve_data_from_usgs_api L start_date end_date (PyFloat (Fin 0)) =
     retrieve_data_from_usgs_api L start_date end_date PyNone
   \<and> request_url L start_date end_date (PyInt 0) =
     ''https://earthquake.usgs.gov/fdsnws/event/1/query?format=csv&starttime=''
       @ py_format L start_date @ ''&endtime='' @ py_format L end_date
   \<and> request_url L start_date end_date (PyFloat (Fin 0)) =
     ''https://earthquake.usgs.gov/fdsnws/event/1/query?format=csv&starttime=''
       @ py_format L start_date @ ''&endtime='' @ py_format L end_date"
  by (simp add: retrieve_data_from_usgs_api_def request_url_def)

lemma py_format_read_csv: "py_format (L\<lparr>read_csv := parse\<rparr>) v = py_format L v"
  by (cases v) (simp_all add: float_repr_def split: float64.split)

lemma request_url_read_csv:
  "request_url (L\<lparr>read_csv := parse\<rparr>) start_date end_date min_mag =
     request_url L start_date end_date min_mag"
  by (simp add: request_url_def py_format_read_csv)

subsection \<open>The checks on the arguments\<close>

text \<open>
  The checks that fire. When \<^verbatim>\<open>start_date\<close> or \<^verbatim>\<open>end_date\<close> is not a date, or \<^verbatim>\<open>min_mag\<close>
  is truthy and neither a float nor an int, the function raises AssertionError. The
  exception is the same whatever the libraries do, and no event precedes it: no request
  is made.
\<close>

lemma failed_check_raises_before_request:
  assumes "\<not> isinstance_date start_date \<or> \<not> isinstance_date end_date
           \<or> (truthy min_mag \<and> \<not> isinstance_float min_mag \<and> \<not> isinstance_int min_mag)"
  shows "\<exists>msg. \<forall>L. retrieve_data_from_usgs_api L start_date end_date min_mag =
           (Inl (AssertionError msg), [])"
proof (cases "isinstance_date start_date \<and> isinstance_date end_date")
  case True
  with assms have "\<forall>L. retrieve_data_from_usgs_api L start_date end_date min_mag =
      (Inl (AssertionError (Some min_mag_message)), [])"
    by (simp add: retrieve_data_from_usgs_api_def)
  then show ?thesis ..
next
  case False
  then have "\<forall>L. retrieve_data_from_usgs_api L start_date end_date min_mag =
      (Inl (AssertionError None), [])"
    by (auto simp add: retrieve_data_from_usgs_api_def)
  then show ?thesis ..
qed

text \<open>A string in place of the start date, and a string in place of the magnitude.\<close>

lemma failed_check_examples:
  "(\<exists>msg. \<forall>L. retrieve_data_from_usgs_api L (PyStr ''2024-01-01'') (PyDate jan2) PyNone =
      (Inl (AssertionError msg), []))
   \<and> (\<exists>msg. \<forall>L. retrieve_data_from_usgs_api L (PyDate jan1) (PyDate jan2) (PyStr ''5.0'') =
      (Inl (AssertionError msg), []))"
  using failed_check_raises_before_request [of "PyStr ''2024-01-01''" "PyDate jan2" PyNone]
    failed_check_raises_before_request [of "PyDate jan1" "PyDate jan2" "PyStr ''5.0''"]
  by simp

subsection \<open>A complete run on the sample inputs\<close>

lemma sample_lib_sel:
  "requests_get sample_lib = (\<lambda>url. Inr ok_response)"
  "read_csv sample_lib = sample_read_csv"
  "series_pow sample_lib = sample_series_pow"
  "figure_check sample_lib = sample_figure_check"
  by (simp_all add: sample_lib_def)

text \<open>The sample parser on the sample bodies.\<close>

lemma sample_read_csv_bodies:
  "sample_read_csv (resp_text ok_response) = Inr sample_df"
  "sample_read_csv (resp_text no_mag_response) = Inr no_mag_df"
  "sample_read_csv (resp_text no_depth_response) = Inr no_depth_df"
  by (simp_all add: sample_read_csv_def ok_response_def no_mag_response_def
      no_depth_response_def sample_body_def no_mag_body_def no_depth_body_def)

lemma sample_status:
  "status_code ok_response = 200"
  "status_code no_mag_response = 200"
  "status_code no_depth_response = 200"
  by (simp_all add: ok_response_def no_mag_response_def no_depth_response_def)

text \<open>The sample writer prints the sample frame as the sample body.\<close>

lemma sample_to_csv: "to_csv sample_lib sample_df False = sample_body"
  by (simp add: to_csv_def csv_header_def csv_rows_def cell_at_def sample_lib_def sample_df_def
      sample_csv_writer_def sample_cell_str_def sample_body_def str_int_def str_nat.simps
      digit_chars)

lemma sample_average_mag: "average_mag sample_lib sample_df = Inr (Fin 6)"
  by (simp add: average_mag_def df_getattr_def sample_df_def series_mean_def series_sum_def
      nan_to_zero_def List.map_filter_def round_binary64_6 np_round_6)

lemma sample_mag_squared: "mag_squared sample_lib sample_df = Inr [CNum (Fin 36)]"
  by (simp add: mag_squared_def df_getitem_def sample_df_def sample_lib_sel
      sample_series_pow_def round_binary64_36)

lemma sample_scatter_geo:
  "px_scatter_geo sample_lib sample_df ''latitude'' ''longitude'' sz [''place'', ''mag''] =
     Inr \<lparr>fig_data = sample_df, fig_lat = ''latitude'', fig_lon = ''longitude'',
          fig_size = sz, fig_custom_data = [''place'', ''mag''], fig_hovertemplate = None\<rparr>"
proof -
  have "filter (\<lambda>n. n \<notin> set (map fst (cols sample_df)))
          [''latitude'', ''longitude'', ''place'', ''mag''] = []"
    by (simp add: sample_df_def)
  moreover have "nrows sample_df = 1"
    by (simp add: sample_df_def)
  ultimately show ?thesis
    by (simp add: px_scatter_geo_def sample_lib_sel sample_figure_check_def)
qed

lemma sample_select:
  "df_select sample_df shown_columns =
     Inr \<lparr>nrows = 1,
          cols = [(''place'', [CStr ''Honshu'']), (''latitude'', [CNum (Fin 35)]),
                  (''longitude'', [CNum (Fin 139)]), (''mag'', [CNum (Fin 6)]),
                  (''depth'', [CNum (Fin 10)])]\<rparr>"
  by (simp add: df_select_def shown_columns_def sample_df_def)

lemma sample_display:
  "display sample_lib sample_df =
     (Inr PyNone,
      [StColumns 2,
       StMetric 1 ''Number of Earthquakes'' (PyInt 1),
       StMetric 2 ''Average Mag of Earthquakes'' (PyFloat (Fin 6)),
       StWrite [], StWrite [],
       StPlotlyChart
         \<lparr>fig_data = sample_df, fig_lat = ''latitude'', fig_lon = ''longitude'',
          fig_size = [CNum (Fin 36)], fig_custom_data = [''place'', ''mag''],
          fig_hovertemplate = Some hover_text\<rparr> True,
       StDataframe
         \<lparr>nrows = 1,
          cols = [(''place'', [CStr ''Honshu'']), (''latitude'', [CNum (Fin 35)]),
                  (''longitude'', [CNum (Fin 139)]), (''mag'', [CNum (Fin 6)]),
                  (''depth'', [CNum (Fin 10)])]\<rparr>,
       StMarkdown (get_table_download_link sample_lib sample_df) True])"
proof -
  have n: "nrows sample_df = 1" by (simp add: sample_df_def)
  show ?thesis
    by (simp add: display_def sample_average_mag sample_mag_squared sample_scatter_geo
        sample_select update_traces_def n)
qed

lemma sample_run:
  "retrieve_data_from_usgs_api sample_lib (PyDate jan1) (PyDate jan2) PyNone =
     (Inr PyNone,
      HttpGet ''https://earthquake.usgs.gov/fdsnws/event/1/query?format=csv&starttime=2024-01-01&endtime=2024-01-02''
      # snd (display sample_lib sample_df))"
  by (simp add: retrieve_data_from_usgs_api_def request_url_def isoformat_jan1 isoformat_jan2
      sample_lib_sel sample_read_csv_bodies sample_status sample_display)

text \<open>
  Claim C3. The claim asks that a value given for \<^verbatim>\<open>min_mag\<close> which is not a number be
  rejected before the request, and so do the comment of line 40 and the message of the
  assertion. At the empty string the code does otherwise: the check of line 44 stands
  under \<^verbatim>\<open>if min_mag:\<close>, the empty string is falsy, and the run is the run with \<^verbatim>\<open>None\<close>.
  Whatever the libraries do, no exception precedes the request, which is made without
  \<^verbatim>\<open>minmagnitude\<close>; on the sample response the run completes.
\<close>

theorem empty_string_min_mag_is_not_rejected:
  "retrieve_data_from_usgs_api L (PyDate jan1) (PyDate jan2) (PyStr []) =
     retrieve_data_from_usgs_api L (PyDate jan1) (PyDate jan2) PyNone
   \<and> take 1 (snd (retrieve_data_from_usgs_api L (PyDate jan1) (PyDate jan2) (PyStr []))) =
     [HttpGet ''https://earthquake.usgs.gov/fdsnws/event/1/query?format=csv&starttime=2024-01-01&endtime=2024-01-02'']
   \<and> fst (retrieve_data_from_usgs_api sample_lib (PyDate jan1) (PyDate jan2) (PyStr [])) =
     Inr PyNone"
proof -
  have same: "retrieve_data_from_usgs_api L' (PyDate jan1) (PyDate jan2) (PyStr []) =
     retrieve_data_from_usgs_api L' (PyDate jan1) (PyDate jan2) PyNone" for L'
    by (simp add: retrieve_data_from_usgs_api_def request_url_def)
  have first: "take 1 (snd (retrieve_data_from_usgs_api L (PyDate jan1) (PyDate jan2) PyNone)) =
     [HttpGet ''https://earthquake.usgs.gov/fdsnws/event/1/query?format=csv&starttime=2024-01-01&endtime=2024-01-02'']"
    by (simp add: retrieve_data_from_usgs_api_def request_url_def isoformat_jan1
        isoformat_jan2 Let_def split: sum.split prod.split)
  from same [of L] same [of sample_lib] first show ?thesis
    by (simp add: sample_run)
qed

subsection \<open>The status of the response\<close>

text \<open>
  Claim C7. With arguments that pass the checks and a request string that can be printed
  (which fails only for an \<^verbatim>\<open>int\<close> of more than 4300 digits, when no request is made and
  there is no response), a response whose status is not 200 makes the function raise
  AssertionError with the message of line 56. The only event is the request; nothing is
  drawn. The parser is not consulted: the result is the same when \<^verbatim>\<open>read_csv\<close> is replaced
  by any function.
\<close>

theorem non_200_fails_without_parsing:
  assumes "isinstance_date start_date" and "isinstance_date end_date"
    and "\<not> truthy min_mag \<or> isinstance_float min_mag \<or> isinstance_int min_mag"
    and "format_raises min_mag = None"
    and "requests_get L (request_url L start_date end_date min_mag) = Inr response"
    and "status_code response \<noteq> 200"
  shows "retrieve_data_from_usgs_api (L\<lparr>read_csv := parse\<rparr>) start_date end_date min_mag =
           (Inl (AssertionError (Some status_message)),
            [HttpGet (request_url L start_date end_date min_mag)])"
  using assms
  by (auto simp add: retrieve_data_from_usgs_api_def request_url_read_csv)

text \<open>A 404 response.\<close>

theorem non_200_witness:
  "retrieve_data_from_usgs_api
     (sample_lib\<lparr>requests_get := \<lambda>url. Inr not_found_response, read_csv := \<lambda>body. Inr sample_df\<rparr>)
     (PyDate jan1) (PyDate jan2) (PyFloat (Fin 5)) =
   (Inl (AssertionError (Some status_message)),
    [HttpGet ''https://earthquake.usgs.gov/fdsnws/event/1/query?format=csv&starttime=2024-01-01&endtime=2024-01-02&minmagnitude=5.0''])"
  using non_200_fails_without_parsing
    [of "PyDate jan1" "PyDate jan2" "PyFloat (Fin 5)"
      "sample_lib\<lparr>requests_get := \<lambda>url. Inr not_found_response\<rparr>" not_found_response
      "\<lambda>body. Inr sample_df"]
  by (simp add: request_url_example not_found_response_def)

subsection \<open>The request string\<close>

text \<open>
  The request string of a truthy \<^verbatim>\<open>min_mag\<close> and of \<^verbatim>\<open>None\<close>. For two dates and a truthy
  \<^verbatim>\<open>min_mag\<close> the request string is the fixed endpoint with \<^verbatim>\<open>format=csv\<close>, \<^verbatim>\<open>starttime\<close> and
  \<^verbatim>\<open>endtime\<close> in ISO form and \<^verbatim>\<open>minmagnitude\<close> as \<^verbatim>\<open>str\<close> prints the value. The dates
  2024-01-01 and 2024-01-02 with 5.0 give the string of the example. With \<^verbatim>\<open>None\<close> there is
  no \<^verbatim>\<open>minmagnitude\<close>. And when the arguments pass the checks and the value can be
  printed, the first event of the run is the request of that string.
\<close>

lemma request_url_parameters:
  "(truthy min_mag \<longrightarrow>
      request_url L (PyDate d1) (PyDate d2) min_mag =
        ''https://earthquake.usgs.gov/fdsnws/event/1/query?format=csv&starttime=''
        @ isoformat d1 @ ''&endtime='' @ isoformat d2 @ ''&minmagnitude='' @ py_format L min_mag)
   \<and> request_url L (PyDate jan1) (PyDate jan2) (PyFloat (Fin 5)) =
        ''https://earthquake.usgs.gov/fdsnws/event/1/query?format=csv&starttime=2024-01-01&endtime=2024-01-02&minmagnitude=5.0''
   \<and> request_url L (PyDate d1) (PyDate d2) PyNone =
        ''https://earthquake.usgs.gov/fdsnws/event/1/query?format=csv&starttime=''
        @ isoformat d1 @ ''&endtime='' @ isoformat d2
   \<and> (isinstance_date start_date \<and> isinstance_date end_date
        \<and> (truthy min_mag \<longrightarrow> isinstance_float min_mag \<or> isinstance_int min_mag)
        \<and> format_raises min_mag = None \<longrightarrow>
      take 1 (snd (retrieve_data_from_usgs_api L start_date end_date min_mag)) =
        [HttpGet (request_url L start_date end_date min_mag)])"
proof -
  have "take 1 (snd (retrieve_data_from_usgs_api L start_date end_date min_mag)) =
        [HttpGet (request_url L start_date end_date min_mag)]"
    if "isinstance_date start_date" "isinstance_date end_date"
      "truthy min_mag \<longrightarrow> isinstance_float min_mag \<or> isinstance_int min_mag"
      "format_raises min_mag = None"
    using that
    by (auto simp add: retrieve_data_from_usgs_api_def Let_def split: sum.split prod.split)
  then show ?thesis
    by (simp add: request_url_example) (simp add: request_url_def)
qed

text \<open>The integer 6 as minimum magnitude.\<close>

lemma str_int_6: "str_int 6 = ''6''"
  by (simp add: str_int_def str_nat.simps digit_chars)

lemma request_url_6:
  "request_url sample_lib (PyDate jan1) (PyDate jan2) (PyInt 6) =
     ''https://earthquake.usgs.gov/fdsnws/event/1/query?format=csv&starttime=2024-01-01&endtime=2024-01-02&minmagnitude=6''
   \<and> take 1 (snd (retrieve_data_from_usgs_api sample_lib (PyDate jan1) (PyDate jan2) (PyInt 6))) =
     [HttpGet ''https://earthquake.usgs.gov/fdsnws/event/1/query?format=csv&starttime=2024-01-01&endtime=2024-01-02&minmagnitude=6'']"
  using request_url_parameters [of "PyInt 6" sample_lib jan1 jan2 "PyDate jan1" "PyDate jan2"]
  by (simp add: isoformat_jan1 isoformat_jan2 str_int_6 int_max_str_digits_def
      str_nat.simps)

lemma float_repr_minus_1: "float_repr L (Fin (- 1)) = ''-1.0''"
  by (simp add: float_repr_def str_int_def str_nat.simps digit_chars floor_minus)

text \<open>
  Claim C8. The claim asks for \<^verbatim>\<open>minmagnitude=<value>\<close> whenever a minimum magnitude is
  provided. At \<^verbatim>\<open>0.0\<close>, which is the least value of the slider of the page, the code does
  otherwise: line 47 tests \<^verbatim>\<open>if min_mag:\<close>, and \<^verbatim>\<open>0.0\<close> is falsy. Whatever the libraries do,
  the request string has no \<^verbatim>\<open>minmagnitude\<close>, and this string is what the run requests;
  the negative magnitude \<^verbatim>\<open>-1.0\<close>, by contrast, is sent.
\<close>

theorem zero_min_mag_is_not_sent:
  "request_url L (PyDate jan1) (PyDate jan2) (PyFloat (Fin 0)) =
     ''https://earthquake.usgs.gov/fdsnws/event/1/query?format=csv&starttime=2024-01-01&endtime=2024-01-02''
   \<and> take 1 (snd (retrieve_data_from_usgs_api L (PyDate jan1) (PyDate jan2) (PyFloat (Fin 0)))) =
     [HttpGet ''https://earthquake.usgs.gov/fdsnws/event/1/query?format=csv&starttime=2024-01-01&endtime=2024-01-02'']
   \<and> request_url L (PyDate jan1) (PyDate jan2) (PyFloat (Fin (- 1))) =
     ''https://earthquake.usgs.gov/fdsnws/event/1/query?format=csv&starttime=2024-01-01&endtime=2024-01-02&minmagnitude=-1.0''"
proof -
  have u: "request_url L (PyDate jan1) (PyDate jan2) (PyFloat (Fin 0)) =
     ''https://earthquake.usgs.gov/fdsnws/event/1/query?format=csv&starttime=2024-01-01&endtime=2024-01-02''"
    by (simp add: request_url_def isoformat_jan1 isoformat_jan2)
  have "take 1 (snd (retrieve_data_from_usgs_api L (PyDate jan1) (PyDate jan2) (PyFloat (Fin 0)))) =
     [HttpGet (request_url L (PyDate jan1) (PyDate jan2) (PyFloat (Fin 0)))]"
    by (simp add: retrieve_data_from_usgs_api_def Let_def split: sum.split prod.split)
  moreover have "request_url L (PyDate jan1) (PyDate jan2) (PyFloat (Fin (- 1))) =
     ''https://earthquake.usgs.gov/fdsnws/event/1/query?format=csv&starttime=2024-01-01&endtime=2024-01-02&minmagnitude=-1.0''"
    by (simp add: request_url_def isoformat_jan1 isoformat_jan2 float_repr_minus_1)
  ultimately show ?thesis
    by (simp only: u)
qed

subsection \<open>A run that completes\<close>

lemma select_cols_Inr:
  "select_cols cs ns = Inr r \<Longrightarrow> map fst r = ns \<and> set ns \<subseteq> set (map fst cs)"
proof (induction ns arbitrary: r)
  case Nil
  then show ?case by simp
next
  case (Cons n ns)
  from Cons.prems obtain c r' where c: "map_of cs n = Some c"
    and r': "select_cols cs ns = Inr r'" and r: "r = (n, c) # r'"
    by (auto split: option.splits sum.splits)
  from c have "n \<in> set (map fst cs)"
    by (auto dest: map_of_SomeD intro: rev_image_eqI)
  with Cons.IH [OF r'] r show ?case by simp
qed

lemma df_select_Inr:
  "df_select df ns = Inr shown \<Longrightarrow>
     map fst (cols shown) = ns \<and> set ns \<subseteq> set (map fst (cols df)) \<and> nrows shown = nrows df"
proof -
  assume a: "df_select df ns = Inr shown"
  then obtain cs where cs: "select_cols (cols df) ns = Inr cs"
    and shown: "shown = \<lparr>nrows = nrows df, cols = cs\<rparr>"
    by (auto simp add: df_select_def split: sum.splits)
  from select_cols_Inr [OF cs] shown show ?thesis by simp
qed

lemma display_Inr:
  assumes "fst (display L eq_df) = Inr v"
  shows "v = PyNone \<and>
    (\<exists>shown. df_select eq_df shown_columns = Inr shown
       \<and> StDataframe shown \<in> set (snd (display L eq_df))
       \<and> StMarkdown (get_table_download_link L eq_df) True \<in> set (snd (display L eq_df)))"
  using assms
  by (auto simp add: display_def Let_def split: sum.splits)

lemma retrieve_Inr:
  assumes "fst (retrieve_data_from_usgs_api L start_date end_date min_mag) = Inr v"
  shows "\<exists>response eq_df.
      requests_get L (request_url L start_date end_date min_mag) = Inr response
      \<and> status_code response = 200
      \<and> read_csv L (resp_text response) = Inr eq_df
      \<and> fst (display L eq_df) = Inr v
      \<and> snd (retrieve_data_from_usgs_api L start_date end_date min_mag) =
          HttpGet (request_url L start_date end_date min_mag) # snd (display L eq_df)"
  using assms
  by (auto simp add: retrieve_data_from_usgs_api_def Let_def
      split: if_splits sum.splits prod.splits option.splits)

text \<open>
  Claim C1, as amended. When the function returns, it returns \<^verbatim>\<open>None\<close>. The data frame
  parsed from the body of a response with status 200 is not returned: it is drawn, as
  its five shown columns in a table, and as a download link made from the whole frame.
\<close>

theorem success_returns_none_and_renders:
  assumes "fst (retrieve_data_from_usgs_api L start_date end_date min_mag) = Inr v"
  shows "v = PyNone \<and>
    (\<exists>response eq_df shown.
       requests_get L (request_url L start_date end_date min_mag) = Inr response
       \<and> status_code response = 200
       \<and> read_csv L (resp_text response) = Inr eq_df
       \<and> df_select eq_df shown_columns = Inr shown
       \<and> StDataframe shown
           \<in> set (snd (retrieve_data_from_usgs_api L start_date end_date min_mag))
       \<and> StMarkdown (get_table_download_link L eq_df) True
           \<in> set (snd (retrieve_data_from_usgs_api L start_date end_date min_mag)))"
proof -
  from retrieve_Inr [OF assms] obtain response eq_df where
    r: "requests_get L (request_url L start_date end_date min_mag) = Inr response"
      "status_code response = 200" "read_csv L (resp_text response) = Inr eq_df"
    and d: "fst (display L eq_df) = Inr v"
    and s: "snd (retrieve_data_from_usgs_api L start_date end_date min_mag) =
          HttpGet (request_url L start_date end_date min_mag) # snd (display L eq_df)"
    by blast
  from display_Inr [OF d] obtain shown where v: "v = PyNone"
    and sh: "df_select eq_df shown_columns = Inr shown"
      "StDataframe shown \<in> set (snd (display L eq_df))"
      "StMarkdown (get_table_download_link L eq_df) True \<in> set (snd (display L eq_df))"
    by blast
  from r sh s have "\<exists>response eq_df shown.
       requests_get L (request_url L start_date end_date min_mag) = Inr response
       \<and> status_code response = 200
       \<and> read_csv L (resp_text response) = Inr eq_df
       \<and> df_select eq_df shown_columns = Inr shown
       \<and> StDataframe shown
           \<in> set (snd (retrieve_data_from_usgs_api L start_date end_date min_mag))
       \<and> StMarkdown (get_table_download_link L eq_df) True
           \<in> set (snd (retrieve_data_from_usgs_api L start_date end_date min_mag))"
    by auto
  with v show ?thesis by simp
qed

lemma sample_run_5:
  "retrieve_data_from_usgs_api sample_lib (PyDate jan1) (PyDate jan2) (PyFloat (Fin 5)) =
     (Inr PyNone,
      HttpGet ''https://earthquake.usgs.gov/fdsnws/event/1/query?format=csv&starttime=2024-01-01&endtime=2024-01-02&minmagnitude=5.0''
      # snd (display sample_lib sample_df))"
  by (simp add: retrieve_data_from_usgs_api_def request_url_example
      sample_lib_sel sample_read_csv_bodies sample_status sample_display)

text \<open>
  The run on the sample inputs completes: the body has one record, the frame parsed from
  it is drawn.
\<close>

theorem success_witness:
  "fst (retrieve_data_from_usgs_api sample_lib (PyDate jan1) (PyDate jan2) (PyFloat (Fin 5))) =
     Inr PyNone
   \<and> StMarkdown (get_table_download_link sample_lib sample_df) True
       \<in> set (snd (retrieve_data_from_usgs_api sample_lib (PyDate jan1) (PyDate jan2)
                     (PyFloat (Fin 5))))"
  using success_returns_none_and_renders
    [of sample_lib "PyDate jan1" "PyDate jan2" "PyFloat (Fin 5)" PyNone]
  by (auto simp add: sample_run_5 sample_lib_sel sample_read_csv_bodies)

text \<open>
  Claim C1 as stated fails on the sample inputs: valid dates, status 200, a body of one
  record that parses. The value returned is \<^verbatim>\<open>None\<close>; the data frame appears in the events
  only, with the square of the magnitude as the size of its mark.
\<close>

theorem returns_none_counterexample:
  "retrieve_data_from_usgs_api sample_lib (PyDate jan1) (PyDate jan2) (PyFloat (Fin 5)) =
     (Inr PyNone,
      [HttpGet ''https://earthquake.usgs.gov/fdsnws/event/1/query?format=csv&starttime=2024-01-01&endtime=2024-01-02&minmagnitude=5.0'',
       StColumns 2,
       StMetric 1 ''Number of Earthquakes'' (PyInt 1),
       StMetric 2 ''Average Mag of Earthquakes'' (PyFloat (Fin 6)),
       StWrite [], StWrite [],
       StPlotlyChart
         \<lparr>fig_data = sample_df, fig_lat = ''latitude'', fig_lon = ''longitude'',
          fig_size = [CNum (Fin 36)], fig_custom_data = [''place'', ''mag''],
          fig_hovertemplate = Some hover_text\<rparr> True,
       StDataframe
         \<lparr>nrows = 1,
          cols = [(''place'', [CStr ''Honshu'']), (''latitude'', [CNum (Fin 35)]),
                  (''longitude'', [CNum (Fin 139)]), (''mag'', [CNum (Fin 6)]),
                  (''depth'', [CNum (Fin 10)])]\<rparr>,
       StMarkdown (get_table_download_link sample_lib sample_df) True])"
  by (simp add: sample_run_5 sample_display)

subsection \<open>A body that lacks a column\<close>

lemma map_of_None_iff: "map_of cs n = None \<longleftrightarrow> n \<notin> set (map fst cs)"
  by (simp add: map_of_eq_None_iff)

lemma map_of_Some_ex: "n \<in> set (map fst cs) \<Longrightarrow> \<exists>c. map_of cs n = Some c"
  using map_of_None_iff [of cs n] by (cases "map_of cs n") auto

lemma select_cols_missing:
  "\<not> set ns \<subseteq> set (map fst cs) \<Longrightarrow> \<exists>e. select_cols cs ns = Inl e"
  using select_cols_Inr [of cs ns] by (cases "select_cols cs ns") auto

lemma display_missing_column:
  assumes "\<not> set shown_columns \<subseteq> set (map fst (cols eq_df))"
  shows "\<exists>e. fst (display L eq_df) = Inl e"
proof -
  from select_cols_missing [OF assms] obtain e where "df_select eq_df shown_columns = Inl e"
    by (auto simp add: df_select_def)
  then show ?thesis
    by (auto simp add: display_def Let_def split: sum.splits)
qed

text \<open>A run that raises while drawing has drawn neither the table nor the link.\<close>

lemma display_error_shows_no_data:
  "fst (display L eq_df) = Inl e \<Longrightarrow> \<not> list_ex shows_data (snd (display L eq_df))"
  by (auto simp add: display_def Let_def split: sum.splits)

text \<open>Without \<^verbatim>\<open>mag\<close>: the AttributeError of \<^verbatim>\<open>eq_df.mag\<close>, line 65.\<close>

lemma display_missing_mag:
  assumes "''mag'' \<notin> set (map fst (cols eq_df))"
  shows "display L eq_df =
     (Inl (AttributeError ''mag''),
      [StColumns 2, StMetric 1 ''Number of Earthquakes'' (PyInt (int (nrows eq_df)))])"
proof -
  from assms have "map_of (cols eq_df) ''mag'' = None"
    by (simp only: map_of_None_iff not_False_eq_True)
  then show ?thesis
    by (simp add: display_def average_mag_def df_getattr_def)
qed

text \<open>
  With \<^verbatim>\<open>mag\<close> but without \<^verbatim>\<open>latitude\<close>, \<^verbatim>\<open>longitude\<close> or \<^verbatim>\<open>place\<close>: the ValueError of
  \<^verbatim>\<open>px.scatter_geo\<close>, line 72, after both metrics.
\<close>

lemma display_missing_plot_column:
  assumes "average_mag L eq_df = Inr avg" and "mag_squared L eq_df = Inr sz"
    and "\<not> set [''latitude'', ''longitude'', ''place''] \<subseteq> set (map fst (cols eq_df))"
  shows "\<exists>n\<in>set [''latitude'', ''longitude'', ''place''].
     n \<notin> set (map fst (cols eq_df))
     \<and> display L eq_df =
         (Inl (ValueError n),
          [StColumns 2, StMetric 1 ''Number of Earthquakes'' (PyInt (int (nrows eq_df))),
           StMetric 2 ''Average Mag of Earthquakes'' (PyFloat avg), StWrite [], StWrite []])"
proof -
  let ?miss = "filter (\<lambda>n. n \<notin> set (map fst (cols eq_df)))
     [''latitude'', ''longitude'', ''place'', ''mag'']"
  from assms(1) have mag: "''mag'' \<in> set (map fst (cols eq_df))"
    using map_of_None_iff [of "cols eq_df" "''mag''"]
    by (auto simp add: average_mag_def df_getattr_def split: option.splits)
  from assms(3) have "?miss \<noteq> []"
    by (auto simp add: filter_empty_conv)
  then obtain n ns where m: "?miss = n # ns"
    by (cases ?miss) auto
  then have "n \<in> set ?miss" by (simp only: list.set insertI1)
  then have n: "n \<in> set [''latitude'', ''longitude'', ''place'', ''mag'']"
    "n \<notin> set (map fst (cols eq_df))"
    unfolding set_filter by blast+
  with mag have n3: "n \<in> set [''latitude'', ''longitude'', ''place'']" by auto
  from m have "px_scatter_geo L eq_df ''latitude'' ''longitude'' sz [''place'', ''mag''] =
      Inl (ValueError n)"
    by (simp add: px_scatter_geo_def)
  with assms(1,2) have "display L eq_df =
         (Inl (ValueError n),
          [StColumns 2, StMetric 1 ''Number of Earthquakes'' (PyInt (int (nrows eq_df))),
           StMetric 2 ''Average Mag of Earthquakes'' (PyFloat avg), StWrite [], StWrite []])"
    by (simp add: display_def)
  with n3 n(2) show ?thesis by blast
qed

text \<open>
  Without \<^verbatim>\<open>depth\<close> only: the KeyError of the selection of line 94, after both metrics and
  the chart.
\<close>

lemma display_missing_depth:
  assumes "average_mag L eq_df = Inr avg" and "mag_squared L eq_df = Inr sz"
    and "set [''latitude'', ''longitude'', ''place'', ''mag''] \<subseteq> set (map fst (cols eq_df))"
    and "figure_check L
           \<lparr>fig_data = eq_df, fig_lat = ''latitude'', fig_lon = ''longitude'', fig_size = sz,
            fig_custom_data = [''place'', ''mag''], fig_hovertemplate = None\<rparr> = None"
    and "''depth'' \<notin> set (map fst (cols eq_df))"
  shows "display L eq_df =
     (Inl (KeyError ''depth''),
      [StColumns 2, StMetric 1 ''Number of Earthquakes'' (PyInt (int (nrows eq_df))),
       StMetric 2 ''Average Mag of Earthquakes'' (PyFloat avg), StWrite [], StWrite [],
       StPlotlyChart
         \<lparr>fig_data = eq_df, fig_lat = ''latitude'', fig_lon = ''longitude'', fig_size = sz,
          fig_custom_data = [''place'', ''mag''], fig_hovertemplate = Some hover_text\<rparr> True])"
proof -
  from assms(3) have "filter (\<lambda>n. n \<notin> set (map fst (cols eq_df)))
     [''latitude'', ''longitude'', ''place'', ''mag''] = []"
    by simp
  with assms(4) have fig: "px_scatter_geo L eq_df ''latitude'' ''longitude'' sz [''place'', ''mag''] =
      Inr \<lparr>fig_data = eq_df, fig_lat = ''latitude'', fig_lon = ''longitude'', fig_size = sz,
            fig_custom_data = [''place'', ''mag''], fig_hovertemplate = None\<rparr>"
    by (simp add: px_scatter_geo_def)
  from assms(3) obtain c1 c2 c3 c4 where
    "map_of (cols eq_df) ''place'' = Some c1" "map_of (cols eq_df) ''latitude'' = Some c2"
    "map_of (cols eq_df) ''longitude'' = Some c3" "map_of (cols eq_df) ''mag'' = Some c4"
    using map_of_Some_ex [of "''place''" "cols eq_df"]
      map_of_Some_ex [of "''latitude''" "cols eq_df"]
      map_of_Some_ex [of "''longitude''" "cols eq_df"]
      map_of_Some_ex [of "''mag''" "cols eq_df"]
    by auto
  moreover from assms(5) have "map_of (cols eq_df) ''depth'' = None"
    by (simp only: map_of_None_iff not_False_eq_True)
  ultimately have sel: "df_select eq_df shown_columns = Inl (KeyError ''depth'')"
    by (simp add: df_select_def shown_columns_def)
  from assms(1,2) fig sel show ?thesis
    by (simp add: display_def update_traces_def)
qed

lemma run_after_parse:
  assumes "isinstance_date start_date" and "isinstance_date end_date"
    and "\<not> truthy min_mag \<or> isinstance_float min_mag \<or> isinstance_int min_mag"
    and "format_raises min_mag = None"
    and "requests_get L (request_url L start_date end_date min_mag) = Inr response"
    and "status_code response = 200"
    and "read_csv L (resp_text response) = Inr eq_df"
  shows "retrieve_data_from_usgs_api L start_date end_date min_mag =
      (fst (display L eq_df),
       HttpGet (request_url L start_date end_date min_mag) # snd (display L eq_df))"
  using assms
  by (auto simp add: retrieve_data_from_usgs_api_def Let_def split: prod.split)

text \<open>
  Claim C2, as amended. With arguments that pass the checks and a response with status 200
  whose body parses to a data frame lacking one of \<^verbatim>\<open>place\<close>, \<^verbatim>\<open>latitude\<close>, \<^verbatim>\<open>longitude\<close>,
  \<^verbatim>\<open>mag\<close>, \<^verbatim>\<open>depth\<close>, the function raises and returns nothing, and neither the table nor the
  link is drawn. The script has no check of the columns and no exception of its own: the
  exception is that of the first use of a missing column, and what precedes that use has
  been drawn.

  \<^item> Without \<^verbatim>\<open>mag\<close>: AttributeError \<^verbatim>\<open>mag\<close> from line 65, after the count.
  \<^item> With \<^verbatim>\<open>mag\<close>, its mean and its squares computed, and without one of \<^verbatim>\<open>latitude\<close>,
    \<^verbatim>\<open>longitude\<close>, \<^verbatim>\<open>place\<close>: ValueError from \<^verbatim>\<open>px.scatter_geo\<close>, naming a missing column,
    after both metrics.
  \<^item> With these four, the figure accepted by Plotly, and without \<^verbatim>\<open>depth\<close>: KeyError
    \<^verbatim>\<open>depth\<close> from line 94, after both metrics and the chart.
\<close>

theorem missing_column_raises_at_first_use:
  assumes "isinstance_date start_date" and "isinstance_date end_date"
    and "\<not> truthy min_mag \<or> isinstance_float min_mag \<or> isinstance_int min_mag"
    and "format_raises min_mag = None"
    and "requests_get L (request_url L start_date end_date min_mag) = Inr response"
    and "status_code response = 200"
    and "read_csv L (resp_text response) = Inr eq_df"
    and "\<not> set shown_columns \<subseteq> set (map fst (cols eq_df))"
  shows "(\<exists>e. fst (retrieve_data_from_usgs_api L start_date end_date min_mag) = Inl e)
    \<and> \<not> list_ex shows_data (snd (retrieve_data_from_usgs_api L start_date end_date min_mag))
    \<and> (''mag'' \<notin> set (map fst (cols eq_df)) \<longrightarrow>
         retrieve_data_from_usgs_api L start_date end_date min_mag =
           (Inl (AttributeError ''mag''),
            [HttpGet (request_url L start_date end_date min_mag), StColumns 2,
             StMetric 1 ''Number of Earthquakes'' (PyInt (int (nrows eq_df)))]))
    \<and> (average_mag L eq_df = Inr avg \<and> mag_squared L eq_df = Inr sz
         \<and> \<not> set [''latitude'', ''longitude'', ''place''] \<subseteq> set (map fst (cols eq_df)) \<longrightarrow>
         (\<exists>n\<in>set [''latitude'', ''longitude'', ''place''].
            n \<notin> set (map fst (cols eq_df))
            \<and> retrieve_data_from_usgs_api L start_date end_date min_mag =
                (Inl (ValueError n),
                 [HttpGet (request_url L start_date end_date min_mag), StColumns 2,
                  StMetric 1 ''Number of Earthquakes'' (PyInt (int (nrows eq_df))),
                  StMetric 2 ''Average Mag of Earthquakes'' (PyFloat avg),
                  StWrite [], StWrite []])))
    \<and> (average_mag L eq_df = Inr avg \<and> mag_squared L eq_df = Inr sz
         \<and> set [''latitude'', ''longitude'', ''place''] \<subseteq> set (map fst (cols eq_df))
         \<and> figure_check L
              \<lparr>fig_data = eq_df, fig_lat = ''latitude'', fig_lon = ''longitude'',
               fig_size = sz, fig_custom_data = [''place'', ''mag''],
               fig_hovertemplate = None\<rparr> = None \<longrightarrow>
         retrieve_data_from_usgs_api L start_date end_date min_mag =
           (Inl (KeyError ''depth''),
            [HttpGet (request_url L start_date end_date min_mag), StColumns 2,
             StMetric 1 ''Number of Earthquakes'' (PyInt (int (nrows eq_df))),
             StMetric 2 ''Average Mag of Earthquakes'' (PyFloat avg),
             StWrite [], StWrite [],
             StPlotlyChart
               \<lparr>fig_data = eq_df, fig_lat = ''latitude'', fig_lon = ''longitude'',
                fig_size = sz, fig_custom_data = [''place'', ''mag''],
                fig_hovertemplate = Some hover_text\<rparr> True]))"
proof -
  note r = run_after_parse [OF assms(1-7)]
  from display_missing_column [OF assms(8)] obtain e where e: "fst (display L eq_df) = Inl e"
    by blast
  with r have 1: "\<exists>e. fst (retrieve_data_from_usgs_api L start_date end_date min_mag) = Inl e"
    by simp
  from display_error_shows_no_data [OF e] r
  have 2: "\<not> list_ex shows_data (snd (retrieve_data_from_usgs_api L start_date end_date min_mag))"
    by simp
  have 3: "retrieve_data_from_usgs_api L start_date end_date min_mag =
           (Inl (AttributeError ''mag''),
            [HttpGet (request_url L start_date end_date min_mag), StColumns 2,
             StMetric 1 ''Number of Earthquakes'' (PyInt (int (nrows eq_df)))])"
    if "''mag'' \<notin> set (map fst (cols eq_df))"
    using r display_missing_mag [OF that] by simp
  have 4: "\<exists>n\<in>set [''latitude'', ''longitude'', ''place''].
            n \<notin> set (map fst (cols eq_df))
            \<and> retrieve_data_from_usgs_api L start_date end_date min_mag =
                (Inl (ValueError n),
                 [HttpGet (request_url L start_date end_date min_mag), StColumns 2,
                  StMetric 1 ''Number of Earthquakes'' (PyInt (int (nrows eq_df))),
                  StMetric 2 ''Average Mag of Earthquakes'' (PyFloat avg),
                  StWrite [], StWrite []])"
    if "average_mag L eq_df = Inr avg" "mag_squared L eq_df = Inr sz"
      "\<not> set [''latitude'', ''longitude'', ''place''] \<subseteq> set (map fst (cols eq_df))"
  proof -
    from display_missing_plot_column [OF that] obtain n where
      "n \<in> set [''latitude'', ''longitude'', ''place'']" "n \<notin> set (map fst (cols eq_df))"
      "display L eq_df =
         (Inl (ValueError n),
          [StColumns 2, StMetric 1 ''Number of Earthquakes'' (PyInt (int (nrows eq_df))),
           StMetric 2 ''Average Mag of Earthquakes'' (PyFloat avg), StWrite [], StWrite []])"
      by blast
    with r show ?thesis by (intro bexI [of _ n]) simp_all
  qed
  have 5: "retrieve_data_from_usgs_api L start_date end_date min_mag =
           (Inl (KeyError ''depth''),
            [HttpGet (request_url L start_date end_date min_mag), StColumns 2,
             StMetric 1 ''Number of Earthquakes'' (PyInt (int (nrows eq_df))),
             StMetric 2 ''Average Mag of Earthquakes'' (PyFloat avg),
             StWrite [], StWrite [],
             StPlotlyChart
               \<lparr>fig_data = eq_df, fig_lat = ''latitude'', fig_lon = ''longitude'',
                fig_size = sz, fig_custom_data = [''place'', ''mag''],
                fig_hovertemplate = Some hover_text\<rparr> True])"
    if a: "average_mag L eq_df = Inr avg" and s: "mag_squared L eq_df = Inr sz"
      and c: "set [''latitude'', ''longitude'', ''place''] \<subseteq> set (map fst (cols eq_df))"
      and f: "figure_check L
              \<lparr>fig_data = eq_df, fig_lat = ''latitude'', fig_lon = ''longitude'',
               fig_size = sz, fig_custom_data = [''place'', ''mag''],
               fig_hovertemplate = None\<rparr> = None"
  proof -
    from a have mag: "''mag'' \<in> set (map fst (cols eq_df))"
      using map_of_None_iff [of "cols eq_df" "''mag''"]
      by (auto simp add: average_mag_def df_getattr_def split: option.splits)
    with c have c4: "set [''latitude'', ''longitude'', ''place'', ''mag'']
        \<subseteq> set (map fst (cols eq_df))"
      by simp
    with assms(8) have d: "''depth'' \<notin> set (map fst (cols eq_df))"
      by (auto simp add: shown_columns_def)
    from r display_missing_depth [OF a s c4 f d] show ?thesis by simp
  qed
  from 1 2 3 4 5 show ?thesis by blast
qed

text \<open>A body without the \<^verbatim>\<open>mag\<close> column.\<close>

theorem missing_mag_witness:
  "retrieve_data_from_usgs_api (sample_lib\<lparr>requests_get := \<lambda>url. Inr no_mag_response\<rparr>)
     (PyDate jan1) (PyDate jan2) (PyFloat (Fin 5)) =
   (Inl (AttributeError ''mag''),
    [HttpGet ''https://earthquake.usgs.gov/fdsnws/event/1/query?format=csv&starttime=2024-01-01&endtime=2024-01-02&minmagnitude=5.0'',
     StColumns 2, StMetric 1 ''Number of Earthquakes'' (PyInt 1)])"
proof -
  have c: "map fst (cols no_mag_df) = [''place'', ''latitude'', ''longitude'', ''depth'']"
    and n: "nrows no_mag_df = 1"
    by (simp_all add: no_mag_df_def)
  have s: "status_code no_mag_response = 200"
    by (simp add: no_mag_response_def)
  from missing_column_raises_at_first_use
    [of "PyDate jan1" "PyDate jan2" "PyFloat (Fin 5)"
      "sample_lib\<lparr>requests_get := \<lambda>url. Inr no_mag_response\<rparr>" no_mag_response no_mag_df]
  show ?thesis
    by (simp add: request_url_example sample_lib_sel sample_read_csv_bodies c n s
        shown_columns_def)
qed

lemma no_depth_average_mag: "average_mag L no_depth_df = Inr (Fin 6)"
  by (simp add: average_mag_def df_getattr_def no_depth_df_def series_mean_def series_sum_def
      nan_to_zero_def List.map_filter_def round_binary64_6 np_round_6)

lemma no_depth_mag_squared:
  "series_pow L = sample_series_pow \<Longrightarrow> mag_squared L no_depth_df = Inr [CNum (Fin 36)]"
  by (simp add: mag_squared_def df_getitem_def no_depth_df_def sample_series_pow_def
      round_binary64_36)

text \<open>
  Claim C2 as stated fails on a body without the \<^verbatim>\<open>depth\<close> column. The body parses, the
  count, the mean and the chart are drawn, and the exception is the KeyError of the
  selection of line 94: raised by pandas when the table is prepared, not a parse error.
\<close>

theorem missing_depth_counterexample:
  "read_csv sample_lib (resp_text no_depth_response) = Inr no_depth_df
   \<and> retrieve_data_from_usgs_api (sample_lib\<lparr>requests_get := \<lambda>url. Inr no_depth_response\<rparr>)
       (PyDate jan1) (PyDate jan2) (PyFloat (Fin 5)) =
     (Inl (KeyError ''depth''),
      [HttpGet ''https://earthquake.usgs.gov/fdsnws/event/1/query?format=csv&starttime=2024-01-01&endtime=2024-01-02&minmagnitude=5.0'',
       StColumns 2,
       StMetric 1 ''Number of Earthquakes'' (PyInt 1),
       StMetric 2 ''Average Mag of Earthquakes'' (PyFloat (Fin 6)),
       StWrite [], StWrite [],
       StPlotlyChart
         \<lparr>fig_data = no_depth_df, fig_lat = ''latitude'', fig_lon = ''longitude'',
          fig_size = [CNum (Fin 36)], fig_custom_data = [''place'', ''mag''],
          fig_hovertemplate = Some hover_text\<rparr> True])"
proof -
  let ?L = "sample_lib\<lparr>requests_get := \<lambda>url. Inr no_depth_response\<rparr>"
  have c: "map fst (cols no_depth_df) = [''place'', ''latitude'', ''longitude'', ''mag'']"
    and n: "nrows no_depth_df = 1"
    by (simp_all add: no_depth_df_def)
  have sq: "mag_squared ?L no_depth_df = Inr [CNum (Fin 36)]"
    by (rule no_depth_mag_squared) (simp add: sample_lib_sel)
  have fc: "figure_check ?L
      \<lparr>fig_data = no_depth_df, fig_lat = ''latitude'', fig_lon = ''longitude'',
       fig_size = [CNum (Fin 36)], fig_custom_data = [''place'', ''mag''],
       fig_hovertemplate = None\<rparr> = None"
    by (simp add: sample_lib_sel sample_figure_check_def n)
  have d: "display ?L no_depth_df =
     (Inl (KeyError ''depth''),
      [StColumns 2, StMetric 1 ''Number of Earthquakes'' (PyInt (int (nrows no_depth_df))),
       StMetric 2 ''Average Mag of Earthquakes'' (PyFloat (Fin 6)), StWrite [], StWrite [],
       StPlotlyChart
         \<lparr>fig_data = no_depth_df, fig_lat = ''latitude'', fig_lon = ''longitude'',
          fig_size = [CNum (Fin 36)], fig_custom_data = [''place'', ''mag''],
          fig_hovertemplate = Some hover_text\<rparr> True])"
    by (rule display_missing_depth [OF no_depth_average_mag sq _ fc]) (simp_all add: c)
  have r: "retrieve_data_from_usgs_api ?L (PyDate jan1) (PyDate jan2) (PyFloat (Fin 5)) =
      (fst (display ?L no_depth_df),
       HttpGet (request_url ?L (PyDate jan1) (PyDate jan2) (PyFloat (Fin 5)))
       # snd (display ?L no_depth_df))"
    by (rule run_after_parse [where response = no_depth_response])
      (simp_all add: sample_lib_sel sample_read_csv_bodies sample_status)
  show ?thesis
    by (simp add: r d n request_url_example sample_lib_sel sample_read_csv_bodies)
qed

subsection \<open>The mean magnitude\<close>

lemma map_filter_cell_num_length:
  "list_all is_num xs \<Longrightarrow> length (List.map_filter cell_num xs) = length xs"
proof (induction xs)
  case Nil
  show ?case by (simp add: List.map_filter_def)
next
  case (Cons x xs)
  then show ?case by (cases x) (simp_all add: List.map_filter_def)
qed

text \<open>
  Claim C5, as amended. For a data frame whose \<^verbatim>\<open>mag\<close> column holds numbers, at least one
  of them not NaN, the mean magnitude shown is \<^verbatim>\<open>np.round(m, 2)\<close> of the binary64 mean \<open>m\<close>
  that pandas computes: zero is put in place of the NaN entries, the column is summed in
  binary64, and the sum is divided by the count of the entries that are not NaN. For
  fewer than eight records the sum is taken from zero, one record after the other in the
  order of the rows, rounding after each addition. The value so computed is not the
  rounded arithmetic mean in general, and it depends on the order of the records.
\<close>

theorem mean_magnitude_is_binary64_mean:
  assumes "map_of (cols eq_df) ''mag'' = Some xs"
    and "list_all is_num xs"
    and "filter (\<lambda>x. x \<noteq> NaN) (List.map_filter cell_num xs) \<noteq> []"
  shows "average_mag L eq_df =
      Inr (np_round
             (fdiv (series_sum L (map nan_to_zero (List.map_filter cell_num xs)))
                (real (length (filter (\<lambda>x. x \<noteq> NaN) (List.map_filter cell_num xs))))) 2)
    \<and> (length xs < 8 \<longrightarrow>
         series_sum L (map nan_to_zero (List.map_filter cell_num xs)) =
           foldl fadd (Fin 0) (map nan_to_zero (List.map_filter cell_num xs)))
    \<and> take 3 (snd (display L eq_df)) =
        [StColumns 2,
         StMetric 1 ''Number of Earthquakes'' (PyInt (int (nrows eq_df))),
         StMetric 2 ''Average Mag of Earthquakes''
           (PyFloat (np_round
             (fdiv (series_sum L (map nan_to_zero (List.map_filter cell_num xs)))
                (real (length (filter (\<lambda>x. x \<noteq> NaN) (List.map_filter cell_num xs))))) 2))]"
proof -
  from assms have a: "average_mag L eq_df =
      Inr (np_round
             (fdiv (series_sum L (map nan_to_zero (List.map_filter cell_num xs)))
                (real (length (filter (\<lambda>x. x \<noteq> NaN) (List.map_filter cell_num xs))))) 2)"
    by (simp add: average_mag_def df_getattr_def series_mean_def Let_def)
  have b: "series_sum L (map nan_to_zero (List.map_filter cell_num xs)) =
           foldl fadd (Fin 0) (map nan_to_zero (List.map_filter cell_num xs))"
    if "length xs < 8"
    using that map_filter_cell_num_length [OF assms(2)] by (simp add: series_sum_def)
  from a have c: "take 3 (snd (display L eq_df)) =
        [StColumns 2,
         StMetric 1 ''Number of Earthquakes'' (PyInt (int (nrows eq_df))),
         StMetric 2 ''Average Mag of Earthquakes''
           (PyFloat (np_round
             (fdiv (series_sum L (map nan_to_zero (List.map_filter cell_num xs)))
                (real (length (filter (\<lambda>x. x \<noteq> NaN) (List.map_filter cell_num xs))))) 2))]"
    by (auto simp add: display_def Let_def split: sum.split)
  from a b c show ?thesis by blast
qed

text \<open>The sample frame, one record of magnitude 6.\<close>

theorem mean_magnitude_witness:
  "average_mag sample_lib sample_df = Inr (Fin 6)
   \<and> take 3 (snd (display sample_lib sample_df)) =
        [StColumns 2,
         StMetric 1 ''Number of Earthquakes'' (PyInt 1),
         StMetric 2 ''Average Mag of Earthquakes'' (PyFloat (Fin 6))]"
proof -
  have m: "map_of (cols sample_df) ''mag'' = Some [CNum (Fin 6)]"
    and n: "nrows sample_df = 1"
    by (simp_all add: sample_df_def)
  from mean_magnitude_is_binary64_mean [of sample_df "[CNum (Fin 6)]" sample_lib] m
  show ?thesis
    by (simp add: List.map_filter_def nan_to_zero_def round_binary64_6 np_round_6 n)
qed

text \<open>
  Claim C5 as stated fails on three records of magnitudes \<open>10 ^ 16\<close>, \<open>1\<close>, \<open>- (10 ^ 16)\<close>.
  Their arithmetic mean is a third, \<open>0.33\<close> when rounded. In the order given the sum is
  \<open>0\<close>, because \<open>10 ^ 16 + 1\<close> is rounded to \<open>10 ^ 16\<close>, and the value shown is \<open>0.0\<close>. With
  the last two records exchanged the sum is \<open>1\<close> and the value shown is \<open>0.33\<close>. So the
  value is neither the rounded arithmetic mean nor the same after a permutation.
\<close>

theorem mean_depends_on_order_counterexample:
  "average_mag sample_lib drift_df = Inr (Fin 0)
   \<and> average_mag sample_lib drift_perm_df = Inr (Fin (5944751508129055 / 18014398509481984))
   \<and> drift_perm_df = reorder_rows [0, 2, 1] drift_df"
proof -
  have a1: "average_mag sample_lib drift_df = Inr (Fin 0)"
    by (simp add: average_mag_def df_getattr_def drift_df_def series_mean_def series_sum_def
        nan_to_zero_def List.map_filter_def round_binary64_1e16 round_binary64_1e16_plus_1
        round_binary64_0 np_round_0)
  have a2: "average_mag sample_lib drift_perm_df =
      Inr (Fin (5944751508129055 / 18014398509481984))"
    by (simp add: average_mag_def df_getattr_def drift_perm_df_def series_mean_def
        series_sum_def nan_to_zero_def List.map_filter_def round_binary64_1e16
        round_binary64_0 round_binary64_1 round_binary64_third np_round_third)
  have p: "drift_perm_df = reorder_rows [0, 2, 1] drift_df"
    by (simp add: drift_df_def drift_perm_df_def reorder_rows_def)
  from a1 a2 p show ?thesis by blast
qed

text \<open>
  Claim C6. For a data frame with no record, \<^verbatim>\<open>np.round(eq_df.mag.mean(), 2)\<close> is NaN: no
  exception is raised, and the second metric shows NaN after the count.
\<close>

theorem empty_dataset_mean_is_nan:
  assumes "map_of (cols eq_df) ''mag'' = Some []"
  shows "average_mag L eq_df = Inr NaN
    \<and> take 3 (snd (display L eq_df)) =
        [StColumns 2,
         StMetric 1 ''Number of Earthquakes'' (PyInt (int (nrows eq_df))),
         StMetric 2 ''Average Mag of Earthquakes'' (PyFloat NaN)]"
proof -
  from assms have a: "average_mag L eq_df = Inr NaN"
    by (simp add: average_mag_def df_getattr_def series_mean_def np_round_def
        List.map_filter_def)
  then show ?thesis
    by (auto simp add: display_def Let_def split: sum.split)
qed

text \<open>A frame with the five columns and no row.\<close>

theorem empty_dataset_witness:
  "average_mag sample_lib empty_df = Inr NaN
   \<and> take 3 (snd (display sample_lib empty_df)) =
        [StColumns 2,
         StMetric 1 ''Number of Earthquakes'' (PyInt 0),
         StMetric 2 ''Average Mag of Earthquakes'' (PyFloat NaN)]"
  using empty_dataset_mean_is_nan [of empty_df sample_lib]
  by (simp add: empty_df_def)

subsection \<open>The table and the export\<close>

text \<open>
  Claim C10, as amended. In a run that completes, the table shows exactly the five
  columns, while the link carries the CSV text of the whole parsed frame: its header row
  names every column of the frame and nothing else, no index column; each data row has as
  many fields as the frame has columns. So the exported columns include the five shown.
\<close>

theorem export_has_every_column:
  assumes "fst (retrieve_data_from_usgs_api L start_date end_date min_mag) = Inr v"
  shows "\<exists>response eq_df shown.
      requests_get L (request_url L start_date end_date min_mag) = Inr response
      \<and> read_csv L (resp_text response) = Inr eq_df
      \<and> StDataframe shown
          \<in> set (snd (retrieve_data_from_usgs_api L start_date end_date min_mag))
      \<and> map fst (cols shown) = shown_columns
      \<and> StMarkdown (get_table_download_link L eq_df) True
          \<in> set (snd (retrieve_data_from_usgs_api L start_date end_date min_mag))
      \<and> b64decode (py_encode (payload_of (get_table_download_link L eq_df))) =
          Some (py_encode (csv_writer L (csv_header eq_df False # csv_rows L eq_df False)))
      \<and> csv_header eq_df False = map fst (cols eq_df)
      \<and> list_all (\<lambda>r. length r = length (cols eq_df)) (csv_rows L eq_df False)
      \<and> set shown_columns \<subseteq> set (csv_header eq_df False)"
proof -
  from retrieve_Inr [OF assms] obtain response eq_df where
    r: "requests_get L (request_url L start_date end_date min_mag) = Inr response"
      "read_csv L (resp_text response) = Inr eq_df"
    and d: "fst (display L eq_df) = Inr v"
    and s: "snd (retrieve_data_from_usgs_api L start_date end_date min_mag) =
          HttpGet (request_url L start_date end_date min_mag) # snd (display L eq_df)"
    by blast
  from display_Inr [OF d] obtain shown where
    sh: "df_select eq_df shown_columns = Inr shown"
      "StDataframe shown \<in> set (snd (display L eq_df))"
      "StMarkdown (get_table_download_link L eq_df) True \<in> set (snd (display L eq_df))"
    by blast
  note sel = df_select_Inr [OF sh(1)]
  have p: "b64decode (py_encode (payload_of (get_table_download_link L eq_df))) =
      Some (py_encode (csv_writer L (csv_header eq_df False # csv_rows L eq_df False)))"
    by (simp only: payload_of_link py_encode_decode b64_roundtrip to_csv_def)
  have h: "csv_header eq_df False = map fst (cols eq_df)"
    by (simp add: csv_header_def)
  have w: "list_all (\<lambda>r. length r = length (cols eq_df)) (csv_rows L eq_df False)"
    by (simp add: csv_rows_def list_all_iff)
  from r sh(2,3) s sel p h w show ?thesis
    by (intro exI [of _ response] exI [of _ eq_df] exI [of _ shown]) simp
qed

text \<open>The sample frame has six columns, all of them in the header of the export.\<close>

theorem export_witness:
  "b64decode (py_encode (payload_of (get_table_download_link sample_lib sample_df))) =
     Some (py_encode (csv_writer sample_lib
       (csv_header sample_df False # csv_rows sample_lib sample_df False)))
   \<and> csv_header sample_df False =
       [''time'', ''latitude'', ''longitude'', ''depth'', ''mag'', ''place'']"
  using export_has_every_column
    [of sample_lib "PyDate jan1" "PyDate jan2" "PyFloat (Fin 5)" PyNone]
  by (auto simp add: sample_run_5 sample_lib_sel sample_read_csv_bodies)
    (simp add: sample_df_def)

text \<open>
  Claim C10 as stated fails for a frame with exactly the five columns: the exported
  columns are the shown ones, not a strict superset.
\<close>

theorem export_not_strict_counterexample:
  "df_select five_df shown_columns = Inr five_df
   \<and> csv_header five_df False = shown_columns"
  by (simp add: df_select_def five_df_def shown_columns_def csv_header_def)

end
